theory Spec2Isabelle
  imports Main "HOL-Library.Word"
begin

section \<open>JavaScript values used by the sources\<close>

text \<open>
  The two components verified here are \<open>SyncFile\<close> (the synchronization engine of one
  tracked file) and \<open>HasProvider\<close> (the connection handle). Both are TypeScript classes;
  the embedding keeps their fields, their getters and their methods, passing the state
  explicitly. Logging (\<open>curryLog\<close> returns a function that does nothing unless debugging is
  switched on) is left out.
\<close>

type_synonym bytes = "8 word list"

text \<open>
  \<open>x || d\<close> on a possibly undefined number: \<open>undefined\<close> and \<open>0\<close> are both falsy, so
  both give the default.
\<close>

definition js_or :: "'a::zero option \<Rightarrow> 'a \<Rightarrow> 'a" where
  "js_or x d = (case x of None \<Rightarrow> d | Some n \<Rightarrow> if n = 0 then d else n)"

text \<open>Truthiness of a possibly undefined string: \<open>undefined\<close> and \<open>""\<close> are falsy.\<close>

definition truthy_str :: "string option \<Rightarrow> bool" where
  "truthy_str x = (case x of None \<Rightarrow> False | Some s \<Rightarrow> s \<noteq> [])"

text \<open>
  The value an \<open>async\<close> function hands to a caller that does not \<open>await\<close> it: a promise
  object wrapping the result. Every object is truthy, whatever it wraps.
\<close>

datatype 'a promise = Promise 'a

definition truthy_promise :: "'a promise \<Rightarrow> bool" where
  "truthy_promise p = (case p of Promise r \<Rightarrow> True)"

text \<open>\<open>s.split(c)\<close> for a one-character separator, and \<open>xs.pop() || ""\<close>.\<close>

fun split_on :: "char \<Rightarrow> string \<Rightarrow> string list" where
  "split_on c [] = [[]]"
| "split_on c (x # xs) =
     (if x = c then [] # split_on c xs
      else (x # hd (split_on c xs)) # tl (split_on c xs))"

definition pop_or_empty :: "string list \<Rightarrow> string" where
  "pop_or_empty xs = (if xs = [] then [] else last xs)"

text \<open>\<open>s.replace(pat, "")\<close> with a string pattern: the first occurrence is removed.\<close>

fun remove_first :: "string \<Rightarrow> string \<Rightarrow> string" where
  "remove_first pat [] = []"
| "remove_first pat (x # xs) =
     (if take (length pat) (x # xs) = pat then drop (length pat) (x # xs)
      else x # remove_first pat xs)"

section \<open>The hasher\<close>

text \<open>
  \<open>generateHash\<close> hex-encodes the SHA-256 digest of the content. The digest itself is the
  platform's (\<open>crypto.subtle.digest\<close>); it is a parameter \<open>digest\<close> of every function that
  hashes. The hex encoding is the source's: two lower-case digits per byte.
\<close>

definition hex_digit :: "nat \<Rightarrow> char" where
  "hex_digit n = ''0123456789abcdef'' ! (n mod 16)"

definition byte_hex :: "8 word \<Rightarrow> string" where
  "byte_hex b = [hex_digit (unat b div 16), hex_digit (unat b mod 16)]"

definition generateHash :: "(bytes \<Rightarrow> bytes) \<Rightarrow> bytes \<Rightarrow> string" where
  "generateHash digest content = concat (map byte_hex (digest content))"

section \<open>Resource addresses\<close>

text \<open>
  Modelled from the spec: the module \<open>S3RN\<close> with the address classes is not among the
  sources. The spec gives a finite closed set of variants, to be read as a tagged union;
  the constructors are the classes the two components import, with the arguments the
  sources pass to them (\<open>new S3RemoteFile(relayId, folderId, fileId)\<close>,
  \<open>new S3File(folderId, fileId)\<close>). \<open>x instanceof C\<close> is the test for the constructor.
\<close>

datatype s3rn =
    S3Folder string
  | S3Document string string
  | S3File string string
  | S3RemoteFolder string string
  | S3RemoteDocument string string string
  | S3RemoteFile string string string

fun is_S3Folder :: "s3rn \<Rightarrow> bool" where
  "is_S3Folder (S3Folder f) = True"
| "is_S3Folder a = False"

fun is_S3Document :: "s3rn \<Rightarrow> bool" where
  "is_S3Document (S3Document f d) = True"
| "is_S3Document a = False"

text \<open>The local variants name no relay; the remote ones do.\<close>

fun is_remote :: "s3rn \<Rightarrow> bool" where
  "is_remote (S3RemoteFolder r f) = True"
| "is_remote (S3RemoteDocument r f d) = True"
| "is_remote (S3RemoteFile r f d) = True"
| "is_remote a = False"

section \<open>The collaborators of a tracked file\<close>

subsection \<open>The local byte store\<close>

text \<open>
  Modelled from the spec: the vault (Obsidian's) is an external collaborator with a
  read/write contract over named byte blobs. A path holds a file (its stats and bytes) or
  a folder. \<open>getAbstractFileByPath\<close> returns the handle of what the path holds or
  \<open>null\<close>; \<open>readBinary\<close> returns the bytes behind a file handle; \<open>writeBinary\<close> stores
  bytes at a path and fails where the path is a folder.
\<close>

record file_stats =
  ctime :: int
  mtime :: int

datatype vnode = VFile file_stats bytes | VFolder

type_synonym vault = "string \<rightharpoonup> vnode"

record tfile =
  tf_path :: string
  stat :: file_stats

datatype abstract_file = TFile tfile | TFolder

definition getAbstractFileByPath :: "vault \<Rightarrow> string \<Rightarrow> abstract_file option" where
  "getAbstractFileByPath v p =
     (case v p of
        None \<Rightarrow> None
      | Some VFolder \<Rightarrow> Some TFolder
      | Some (VFile st b) \<Rightarrow> Some (TFile \<lparr>tf_path = p, stat = st\<rparr>))"

subsection \<open>The content-addressable store\<close>

text \<open>
  Modelled from the spec: the CAS is an external collaborator with the contract
  \<open>writeFile(metadata, bytes) -> id\<close>, \<open>readFile(id) -> bytes\<close>,
  \<open>getByHash(hash) -> metadata | undefined\<close>. It is an append-mostly list of records; a
  write either creates a new record or is refused (a duplicate, or any other failure),
  which the caller is told by an exception. Whether a write is accepted, and under which
  id, is the store's decision: it is an input (\<open>cas_write\<close> of the environment below).
\<close>

record file_meta =
  m_guid :: string
  m_name :: string
  synchash :: string
  m_ctime :: int
  m_mtime :: int
  m_parent :: "string option"
  is_directory :: bool
  m_synctime :: int

record file_info =
  fi_id :: string
  meta :: file_meta

type_synonym cas_store = "(file_info \<times> bytes) list"

definition getByHash :: "cas_store \<Rightarrow> string \<Rightarrow> file_info option" where
  "getByHash c h = map_option fst (find (\<lambda>r. synchash (meta (fst r)) = h) c)"

definition readFile :: "cas_store \<Rightarrow> string \<Rightarrow> bytes option" where
  "readFile c i = map_option snd (find (\<lambda>r. fi_id (fst r) = i) c)"

definition writeFile :: "cas_store \<Rightarrow> file_meta \<Rightarrow> bytes \<Rightarrow> string option \<Rightarrow> cas_store" where
  "writeFile c m content outcome =
     (case outcome of
        None \<Rightarrow> c
      | Some i \<Rightarrow> c @ [(\<lparr>fi_id = i, meta = m\<rparr>, content)])"

subsection \<open>The shared folder and its shared metadata\<close>

text \<open>
  Modelled from the spec: the class \<open>SharedFolder\<close> is not among the sources. A tracked
  file uses these members of its parent: \<open>guid\<close>, \<open>relayId\<close>, \<open>s3rn\<close>, the two shared maps
  \<open>hashes\<close> and \<open>synctimes\<close>, the store \<open>cas\<close>, \<open>shouldConnect\<close> and \<open>getPath\<close> (the
  resolved vault path of a virtual path).
\<close>

record shared_folder =
  sf_guid :: string
  relayId :: "string option"
  sf_s3rn :: s3rn
  hashes :: "string \<rightharpoonup> string"
  synctimes :: "string \<rightharpoonup> int"
  cas :: cas_store
  sf_shouldConnect :: bool
  getPath :: "string \<Rightarrow> string"

section \<open>The tracked file\<close>

text \<open>
  The fields of \<open>SyncFile\<close>. Its references to collaborators (\<open>_parent\<close>, \<open>vault\<close>,
  \<open>relayManager\<close>) are the folder and the vault of the \<open>world\<close> below; its loggers and
  the two unsubscribe callbacks are left out. \<open>_tfile\<close> and \<open>_filehash\<close> are
  \<open>priv_tfile\<close> and \<open>priv_filehash\<close>.
\<close>

record sync_file =
  s3rn :: s3rn
  path :: string
  name :: string
  extension :: string
  basename :: string
  guid :: string
  priv_tfile :: "abstract_file option"
  priv_filehash :: "string option"
  synctime :: int
  ready :: bool
  connected :: bool

text \<open>
  What the operations of a tracked file do to their collaborators is recorded: each call
  of the store, of the byte store and each transaction on the shared document is an
  event. A transaction lists the writes it applies.
\<close>

datatype ymap_set = HashesSet string string | SynctimesSet string int

datatype event =
    CasGetByHash string
  | CasReadFile string
  | CasWriteFile file_meta bytes
  | VaultReadBinary string
  | AdapterWriteBinary string bytes
  | YdocTransact "ymap_set list"

record world =
  sfile :: sync_file
  folder :: shared_folder
  vault :: vault
  trace :: "event list"

text \<open>
  The errors of the operations. The sources throw \<open>Error\<close> objects told apart by their
  message; the constructors carry what the message interpolates.
  \<^item> \<open>ServerHashMissing p\<close>: \<open>`${path} no server hash for item`\<close>;
  \<^item> \<open>ServerContentMissing p h\<close>: \<open>`${path} (${serverHash}) item missing from server`\<close>;
  \<^item> \<open>LocalMaterializationMissing\<close>: \<open>"TFile API used before file existed"\<close>;
  \<^item> \<open>CasReadFailed\<close>, \<open>ByteStoreFailed\<close>: a failure of a collaborator;
  \<^item> \<open>TokenAcquisitionTimeout\<close>, \<open>TokenAcquisitionFailed\<close>, \<open>TransportConnectFailure\<close>:
    what the token store and the transport reject or throw with (used by the connection
    handle).
\<close>

datatype error =
    ServerHashMissing string
  | ServerContentMissing string string
  | LocalMaterializationMissing
  | CasReadFailed string
  | ByteStoreFailed string
  | TokenAcquisitionTimeout
  | TokenAcquisitionFailed
  | TransportConnectFailure

text \<open>
  What an operation takes from outside: the two readings of the clock in \<open>push\<close>
  (\<open>Date.now()\<close> in the metadata and for \<open>synctime\<close>), the fresh identifier of \<open>uuidv4()\<close>,
  the store's answer to a write (\<open>Some id\<close>, or \<open>None\<close> when it refuses), and the stats
  the byte store gives a file it writes.
\<close>

record env =
  now_meta :: int
  now_sync :: int
  uuid :: string
  cas_write :: "string option"
  fs_stat :: file_stats

definition emit :: "event \<Rightarrow> world \<Rightarrow> world" where
  "emit e w = w\<lparr>trace := trace w @ [e]\<rparr>"

subsection \<open>Construction, disconnect\<close>

datatype hash_or_file = HashArg string | FileArg tfile | UndefinedArg

definition name_of_path :: "string \<Rightarrow> string" where
  "name_of_path p = pop_or_empty (split_on CHR ''/'' p)"

definition extension_of_name :: "string \<Rightarrow> string" where
  "extension_of_name n = pop_or_empty (split_on CHR ''.'' n)"

definition basename_of_name :: "string \<Rightarrow> string" where
  "basename_of_name n = remove_first (CHR ''.'' # extension_of_name n) n"

definition mtime_or_zero :: "abstract_file option \<Rightarrow> int" where
  "mtime_or_zero t =
     js_or (case t of Some (TFile f) \<Rightarrow> Some (mtime (stat f)) | _ \<Rightarrow> None) 0"

definition new_SyncFile ::
  "string \<Rightarrow> hash_or_file \<Rightarrow> string \<Rightarrow> shared_folder \<Rightarrow> vault \<Rightarrow> sync_file" where
  "new_SyncFile p hashOrFile g parent v =
     (let t0 = (case hashOrFile of FileArg t \<Rightarrow> Some (TFile t) | _ \<Rightarrow> None);
          h0 = (case hashOrFile of HashArg h \<Rightarrow> Some h | _ \<Rightarrow> None);
          a = (if truthy_str (relayId parent)
               then S3RemoteFile (the (relayId parent)) (sf_guid parent) g
               else S3File (sf_guid parent) g);
          t1 = (case getAbstractFileByPath v (getPath parent p) of
                  Some (TFile t) \<Rightarrow> Some (TFile t)
                | _ \<Rightarrow> t0)
      in \<lparr>s3rn = a, path = p, name = name_of_path p,
          extension = extension_of_name (name_of_path p),
          basename = basename_of_name (name_of_path p),
          guid = g, priv_tfile = t1, priv_filehash = h0,
          synctime = mtime_or_zero t1, ready = False, connected = True\<rparr>)"

definition disconnect :: "world \<Rightarrow> world" where
  "disconnect w = w\<lparr>sfile := (sfile w)\<lparr>connected := False\<rparr>\<rparr>"

subsection \<open>The derived getters\<close>

definition serverHash :: "world \<Rightarrow> string option" where
  "serverHash w = hashes (folder w) (guid (sfile w))"

definition shouldPull :: "world \<Rightarrow> bool" where
  "shouldPull w = (js_or (synctimes (folder w) (guid (sfile w))) 0 > synctime (sfile w))"

text \<open>
  \<open>getRemote\<close> is \<open>async\<close>. It has no \<open>await\<close> of its own, so the lookup in the store
  happens when it is called; a caller gets the result by awaiting the promise.
\<close>

definition getRemote :: "world \<Rightarrow> file_info option \<times> world" where
  "getRemote w =
     (if \<not> truthy_str (serverHash w) then (None, w)
      else (getByHash (cas (folder w)) (the (serverHash w)),
            emit (CasGetByHash (the (serverHash w))) w))"

text \<open>
  \<open>shouldPush\<close> does not await \<open>getRemote()\<close>: \<open>serverHasContent\<close> is \<open>!!\<close> of the promise.
\<close>

definition shouldPush :: "world \<Rightarrow> bool \<times> world" where
  "shouldPush w =
     (let serverOutOfDate =
            (js_or (synctimes (folder w) (guid (sfile w))) 0 < synctime (sfile w));
          r = getRemote w;
          serverHasContent = truthy_promise (Promise (fst r))
      in (serverOutOfDate \<or> \<not> serverHasContent, snd r))"

definition isStale :: "world \<Rightarrow> bool" where
  "isStale w = (priv_filehash (sfile w) \<noteq> hashes (folder w) (guid (sfile w)))"

text \<open>The getter \<open>tfile\<close>: the file the vault holds at the resolved path, or an exception.\<close>

definition tfile_of :: "world \<Rightarrow> error + tfile" where
  "tfile_of w =
     (case getAbstractFileByPath (vault w) (getPath (folder w) (path (sfile w))) of
        Some (TFile t) \<Rightarrow> Inr t
      | _ \<Rightarrow> Inl LocalMaterializationMissing)"

definition stat_of :: "world \<Rightarrow> error + file_stats" where
  "stat_of w = (case tfile_of w of Inl e \<Rightarrow> Inl e | Inr t \<Rightarrow> Inr (stat t))"

definition readBinary :: "tfile \<Rightarrow> world \<Rightarrow> (error + bytes) \<times> world" where
  "readBinary t w =
     (case vault w (tf_path t) of
        Some (VFile st b) \<Rightarrow> (Inr b, emit (VaultReadBinary (tf_path t)) w)
      | _ \<Rightarrow> (Inl (ByteStoreFailed (tf_path t)), emit (VaultReadBinary (tf_path t)) w))"

definition writeBinary :: "string \<Rightarrow> bytes \<Rightarrow> file_stats \<Rightarrow> world \<Rightarrow> (error + unit) \<times> world" where
  "writeBinary p content st w =
     (case vault w p of
        Some VFolder \<Rightarrow> (Inl (ByteStoreFailed p), emit (AdapterWriteBinary p content) w)
      | _ \<Rightarrow> (Inr (), emit (AdapterWriteBinary p content)
                        (w\<lparr>vault := (vault w)(p \<mapsto> VFile st content)\<rparr>)))"

subsection \<open>Hashing the local bytes\<close>

definition updateStats :: "(bytes \<Rightarrow> bytes) \<Rightarrow> world \<Rightarrow> (error + unit) \<times> world" where
  "updateStats digest w =
     (case tfile_of w of
        Inl e \<Rightarrow> (Inl e, w)
      | Inr t \<Rightarrow>
          (case readBinary t w of
             (Inl e, w1) \<Rightarrow> (Inl e, w1)
           | (Inr content, w1) \<Rightarrow>
               (Inr (), w1\<lparr>sfile := (sfile w1)\<lparr>priv_filehash :=
                               Some (generateHash digest content)\<rparr>\<rparr>)))"

text \<open>
  \<open>getHash\<close> returns \<open>this._filehash as string\<close>: the cast changes nothing, so the value
  is the optional hash.
\<close>

definition getHash :: "(bytes \<Rightarrow> bytes) \<Rightarrow> bool \<Rightarrow> world \<Rightarrow> (error + string option) \<times> world" where
  "getHash digest compute w =
     (if priv_filehash (sfile w) = None \<or> compute
      then (case updateStats digest w of
              (Inl e, w1) \<Rightarrow> (Inl e, w1)
            | (Inr u, w1) \<Rightarrow> (Inr (priv_filehash (sfile w1)), w1))
      else (Inr (priv_filehash (sfile w)), w))"

subsection \<open>push\<close>

text \<open>
  The body of the \<open>try\<close> in \<open>push\<close>: the metadata literal reads \<open>this.stat\<close> (which
  throws when the vault has no file at the path) and the store is asked to write.
  Whatever is thrown there is caught and dropped.
\<close>

definition push_write :: "env \<Rightarrow> file_info option \<Rightarrow> string \<Rightarrow> bytes \<Rightarrow> world \<Rightarrow> world" where
  "push_write en fileInfo hash content w =
     (case stat_of w of
        Inl e \<Rightarrow> w
      | Inr st \<Rightarrow>
          (let m = \<lparr>m_guid = (case fileInfo of Some fi \<Rightarrow> m_guid (meta fi) | None \<Rightarrow> uuid en),
                    m_name = name (sfile w), synchash = hash,
                    m_ctime = ctime st, m_mtime = mtime st,
                    m_parent = None, is_directory = False, m_synctime = now_meta en\<rparr>
           in emit (CasWriteFile m content)
                (w\<lparr>folder := (folder w)\<lparr>cas :=
                      writeFile (cas (folder w)) m content (cas_write en)\<rparr>\<rparr>)))"

text \<open>\<open>ydoc.transact\<close>: the writes of the callback are applied as one step.\<close>

fun apply_set :: "ymap_set \<Rightarrow> shared_folder \<Rightarrow> shared_folder" where
  "apply_set (HashesSet g h) f = f\<lparr>hashes := (hashes f)(g \<mapsto> h)\<rparr>"
| "apply_set (SynctimesSet g t) f = f\<lparr>synctimes := (synctimes f)(g \<mapsto> t)\<rparr>"

definition transact :: "ymap_set list \<Rightarrow> world \<Rightarrow> world" where
  "transact sets w = emit (YdocTransact sets) (w\<lparr>folder := fold apply_set sets (folder w)\<rparr>)"

definition push :: "env \<Rightarrow> (bytes \<Rightarrow> bytes) \<Rightarrow> world \<Rightarrow> (error + string) \<times> world" where
  "push en digest w =
     (case getRemote w of
        (fileInfo, w1) \<Rightarrow>
          (case updateStats digest w1 of
             (Inl e, w2) \<Rightarrow> (Inl e, w2)
           | (Inr u, w2) \<Rightarrow>
               (case tfile_of w2 of
                  Inl e \<Rightarrow> (Inl e, w2)
                | Inr t \<Rightarrow>
                    (case readBinary t w2 of
                       (Inl e, w3) \<Rightarrow> (Inl e, w3)
                     | (Inr content, w3) \<Rightarrow>
                         (let hash = generateHash digest content;
                              w4 = (if map_option (\<lambda>fi. synchash (meta fi)) fileInfo \<noteq> Some hash
                                    then push_write en fileInfo hash content w3
                                    else w3);
                              w5 = w4\<lparr>sfile := (sfile w4)\<lparr>synctime := now_sync en\<rparr>\<rparr>;
                              w6 = (if hashes (folder w5) (guid (sfile w5)) \<noteq> Some hash
                                    then transact
                                           [HashesSet (guid (sfile w5)) hash,
                                            SynctimesSet (guid (sfile w5)) (synctime (sfile w5))]
                                           w5
                                    else w5)
                          in (Inr hash, w6))))))"

subsection \<open>pull\<close>

text \<open>
  After the check of \<open>serverHash\<close>, \<open>pull\<close> calls \<open>cas.getByHash\<close> once without using the
  result, then \<open>getRemote\<close>. The last statement stores
  \<open>getAbstractFileByPath(...) as TFile\<close>: the cast checks nothing.
\<close>

definition pull :: "env \<Rightarrow> (bytes \<Rightarrow> bytes) \<Rightarrow> world \<Rightarrow> (error + unit) \<times> world" where
  "pull en digest w =
     (if \<not> truthy_str (serverHash w) then (Inl (ServerHashMissing (path (sfile w))), w)
      else
        (case getRemote (emit (CasGetByHash (the (serverHash w))) w) of
           (None, w1) \<Rightarrow>
             (Inl (ServerContentMissing (path (sfile w1)) (the (serverHash w1))), w1)
         | (Some fi, w1) \<Rightarrow>
             (case readFile (cas (folder w1)) (fi_id fi) of
                None \<Rightarrow> (Inl (CasReadFailed (fi_id fi)), emit (CasReadFile (fi_id fi)) w1)
              | Some content \<Rightarrow>
                  (case writeBinary (getPath (folder w1) (path (sfile w1))) content (fs_stat en)
                          (emit (CasReadFile (fi_id fi)) w1) of
                     (Inl e, w2) \<Rightarrow> (Inl e, w2)
                   | (Inr u, w2) \<Rightarrow>
                       (Inr (),
                        w2\<lparr>sfile := (sfile w2)
                              \<lparr>priv_filehash := Some (generateHash digest content),
                               priv_tfile := getAbstractFileByPath (vault w2)
                                               (getPath (folder w2) (path (sfile w2)))\<rparr>\<rparr>)))))"

subsection \<open>sync\<close>

definition sync :: "env \<Rightarrow> (bytes \<Rightarrow> bytes) \<Rightarrow> world \<Rightarrow> (error + unit) \<times> world" where
  "sync en digest w =
     (if \<not> connected (sfile w) then (Inr (), w)
      else if priv_tfile (sfile w) = None then pull en digest w
      else
        (case getHash digest True w of
           (Inl e, w1) \<Rightarrow> (Inl e, w1)
         | (Inr h, w1) \<Rightarrow>
             (if isStale w1 \<and> shouldPull w1 then pull en digest w1
              else (case push en digest w1 of
                      (Inl e, w2) \<Rightarrow> (Inl e, w2)
                    | (Inr h', w2) \<Rightarrow> (Inr (), w2)))))"

subsection \<open>connect\<close>

text \<open>
  \<open>SyncFile.connect\<close>. The call \<open>sharedFolder.connect()\<close> acts on the folder's own
  connection handle, which is no part of the file's state; its promise resolves (see
  \<open>HasProvider_connect\<close> below), and the continuation sets \<open>connected\<close> and returns it.
\<close>

definition SyncFile_connect :: "world \<Rightarrow> bool \<times> world" where
  "SyncFile_connect w =
     (if is_S3Folder (sf_s3rn (folder w)) then (False, w)
      else
        (let w1 = (if is_S3Document (s3rn (sfile w))
                   then w\<lparr>sfile := (sfile w)\<lparr>s3rn :=
                          (if truthy_str (relayId (folder w))
                           then S3RemoteFile (the (relayId (folder w))) (sf_guid (folder w))
                                  (guid (sfile w))
                           else S3File (sf_guid (folder w)) (guid (sfile w)))\<rparr>\<rparr>
                   else w)
         in if \<not> sf_shouldConnect (folder w1) then (False, w1)
            else (True, w1\<lparr>sfile := (sfile w1)\<lparr>connected := True\<rparr>\<rparr>)))"

section \<open>The connection handle\<close>

datatype connection_status =
  StatusConnected | StatusConnecting | StatusDisconnected | StatusUnknown

datatype connection_intent = IntentConnected | IntentDisconnected

text \<open>
  \<open>status\<close> is optional: \<open>readyStateMap[x]\<close> is \<open>undefined\<close> for a key the map does not
  have.
\<close>

record connection_state =
  status :: "connection_status option"
  intent :: connection_intent

text \<open>The enum \<open>readyState\<close> and the table \<open>readyStateMap\<close>.\<close>

definition CONNECTING :: nat where "CONNECTING = 0"
definition OPEN :: nat where "OPEN = 1"
definition CLOSING :: nat where "CLOSING = 2"
definition CLOSED :: nat where "CLOSED = 3"

definition readyStateMap :: "nat \<Rightarrow> connection_status option" where
  "readyStateMap n =
     (if n = 3 then Some StatusDisconnected
      else if n = 2 then Some StatusDisconnected
      else if n = 1 then Some StatusConnected
      else if n = 0 then Some StatusConnecting
      else None)"

record client_token =
  ct_url :: string
  token :: string
  expiryTime :: int

text \<open>
  Modelled from the spec: the transport (\<open>YSweetProvider\<close>) is an external collaborator.
  The handle reads and writes these members of it: \<open>url\<close>, \<open>shouldConnect\<close> (the intent),
  \<open>wsUnsuccessfulReconnects\<close> (the consecutive error count) and \<open>ws\<close>, the socket:
  \<open>null\<close>, or a socket with its \<open>readyState\<close>. Closing a socket that is connecting or open
  makes it closing; the transport's \<open>connect()\<close> records the intent and opens a socket
  when there is none.
\<close>

record provider =
  url :: string
  shouldConnect :: bool
  wsUnsuccessfulReconnects :: nat
  ws :: "nat option"

definition ws_close :: "nat \<Rightarrow> nat" where
  "ws_close r = (if r = CONNECTING \<or> r = OPEN then CLOSING else r)"

definition provider_connect :: "provider \<Rightarrow> provider" where
  "provider_connect p =
     p\<lparr>shouldConnect := True,
       ws := (case ws p of None \<Rightarrow> Some CONNECTING | Some r \<Rightarrow> Some r)\<rparr>"

text \<open>
  The handle. \<open>_provider\<close> is never \<open>null\<close> (the constructor sets it and nothing clears
  it), so the branch \<open>throw new Error("missing provider!")\<close> of \<open>refreshProvider\<close> has no
  input. A listener is a callback, known here by a number; what it is called with is
  recorded in \<open>delivered\<close>.
\<close>

record has_provider =
  provider :: provider
  hp_s3rn :: s3rn
  hp_path :: "string option"
  clientToken :: client_token
  listeners :: "(nat \<times> nat) list"
  delivered :: "(nat \<times> connection_state) list"

definition PROVIDER_MAX_ERRORS :: nat where "PROVIDER_MAX_ERRORS = 3"

fun s3rnToYsweetDocId :: "s3rn \<Rightarrow> string" where
  "s3rnToYsweetDocId (S3RemoteDocument r f d) = r @ ''-'' @ d"
| "s3rnToYsweetDocId (S3RemoteFolder r f) = r @ ''-'' @ f"
| "s3rnToYsweetDocId a = ''-''"

definition state :: "has_provider \<Rightarrow> connection_state" where
  "state hp =
     \<lparr>status = readyStateMap (js_or (ws (provider hp)) CLOSED),
      intent = (if shouldConnect (provider hp) then IntentConnected else IntentDisconnected)\<rparr>"

definition HasProvider_connected :: "has_provider \<Rightarrow> bool" where
  "HasProvider_connected hp = (status (state hp) = Some StatusConnected)"

definition notifyListeners :: "has_provider \<Rightarrow> has_provider" where
  "notifyListeners hp =
     hp\<lparr>delivered := delivered hp @ map (\<lambda>kl. (snd kl, state hp)) (listeners hp)\<rparr>"

fun listeners_set :: "nat \<Rightarrow> nat \<Rightarrow> (nat \<times> nat) list \<Rightarrow> (nat \<times> nat) list" where
  "listeners_set el l [] = [(el, l)]"
| "listeners_set el l (kv # kvs) =
     (if fst kv = el then (el, l) # kvs else kv # listeners_set el l kvs)"

definition subscribe :: "nat \<Rightarrow> nat \<Rightarrow> has_provider \<Rightarrow> has_provider" where
  "subscribe el l hp = hp\<lparr>listeners := listeners_set el l (listeners hp)\<rparr>"

definition unsubscribe :: "nat \<Rightarrow> has_provider \<Rightarrow> has_provider" where
  "unsubscribe el hp = hp\<lparr>listeners := filter (\<lambda>kv. fst kv \<noteq> el) (listeners hp)\<rparr>"

text \<open>
  \<open>refreshProvider\<close> builds a second provider for the token only to read its \<open>url\<close>. How
  the transport derives that URL from the token's URL, the document id and the token is
  the transport's: the parameter \<open>mkurl\<close>.
\<close>

definition refreshProvider ::
  "(string \<Rightarrow> string \<Rightarrow> string \<Rightarrow> string) \<Rightarrow> client_token \<Rightarrow> has_provider \<Rightarrow> has_provider" where
  "refreshProvider mkurl tok hp =
     (let hp1 = hp\<lparr>clientToken := tok\<rparr>;
          newUrl = mkurl (ct_url tok) (s3rnToYsweetDocId (hp_s3rn hp1)) (token tok)
      in if url (provider hp1) \<noteq> newUrl
         then hp1\<lparr>provider := (provider hp1)
                    \<lparr>url := newUrl, wsUnsuccessfulReconnects := 0,
                     ws := map_option ws_close (ws (provider hp1))\<rparr>\<rparr>
         else hp1)"

definition HasProvider_disconnect :: "has_provider \<Rightarrow> has_provider" where
  "HasProvider_disconnect hp =
     notifyListeners (hp\<lparr>provider := (provider hp)\<lparr>shouldConnect := False, ws := None\<rparr>\<rparr>)"

text \<open>
  Promises: a settled promise is its outcome (\<open>Inl\<close> rejected, \<open>Inr\<close> resolved) and the
  state it leaves. \<open>then\<close> runs its callback on a resolved value; \<open>catch\<close> turns a
  rejection into the value its callback returns.
\<close>

definition promise_then ::
  "(error + 'a) \<times> 's \<Rightarrow> ('a \<Rightarrow> 's \<Rightarrow> (error + 'b) \<times> 's) \<Rightarrow> (error + 'b) \<times> 's" where
  "promise_then p f = (case p of (Inl e, s) \<Rightarrow> (Inl e, s) | (Inr x, s) \<Rightarrow> f x s)"

definition promise_catch :: "(error + 'a) \<times> 's \<Rightarrow> (error \<Rightarrow> 'a) \<Rightarrow> (error + 'a) \<times> 's" where
  "promise_catch p h = (case p of (Inl e, s) \<Rightarrow> (Inr (h e), s) | (Inr x, s) \<Rightarrow> (Inr x, s))"

text \<open>
  \<open>getProviderToken\<close> asks the token store (with a timeout of 10 seconds except on iOS);
  the store's answer \<open>tokr\<close> is an input: a token, or a rejection. Likewise \<open>conn\<close> says
  whether the transport's \<open>connect()\<close> throws.
\<close>

definition getProviderToken ::
  "error + client_token \<Rightarrow> has_provider \<Rightarrow> (error + client_token) \<times> has_provider" where
  "getProviderToken tokr hp = (tokr, hp)"

definition connect_then ::
  "(string \<Rightarrow> string \<Rightarrow> string \<Rightarrow> string) \<Rightarrow> error option \<Rightarrow> client_token \<Rightarrow> has_provider
     \<Rightarrow> (error + bool) \<times> has_provider" where
  "connect_then mkurl conn tok hp =
     (let hp1 = refreshProvider mkurl tok hp
      in case conn of
           Some e \<Rightarrow> (Inl e, hp1)
         | None \<Rightarrow>
             (Inr True, notifyListeners (hp1\<lparr>provider := provider_connect (provider hp1)\<rparr>)))"

definition HasProvider_connect ::
  "(string \<Rightarrow> string \<Rightarrow> string \<Rightarrow> string) \<Rightarrow> error + client_token \<Rightarrow> error option \<Rightarrow> has_provider
     \<Rightarrow> (error + bool) \<times> has_provider" where
  "HasProvider_connect mkurl tokr conn hp =
     (if HasProvider_connected hp then (Inr True, hp)
      else promise_catch
             (promise_then (getProviderToken tokr hp) (connect_then mkurl conn))
             (\<lambda>e. False))"

subsection \<open>The handler of the transport's connection-error event\<close>

text \<open>
  The handler returns nothing; the flag returned here says whether it called
  \<open>connect()\<close>.
\<close>

definition on_connection_error ::
  "(string \<Rightarrow> string \<Rightarrow> string \<Rightarrow> string) \<Rightarrow> error + client_token \<Rightarrow> error option \<Rightarrow> has_provider
     \<Rightarrow> bool \<times> has_provider" where
  "on_connection_error mkurl tokr conn hp =
     (let shouldConnect' =
            (url (provider hp) \<noteq> [] \<and> shouldConnect (provider hp) \<and>
             wsUnsuccessfulReconnects (provider hp) < PROVIDER_MAX_ERRORS);
          hp1 = HasProvider_disconnect hp
      in if shouldConnect' then (True, snd (HasProvider_connect mkurl tokr conn hp1))
         else (False, hp1))"

text \<open>
  Modelled from the spec: \<open>errorCount\<close> is the count of consecutive connection errors
  since the last successful connect, kept by the transport. One failed attempt is the
  event delivered to the handler, after which the transport counts the failure.
  \<open>error_burst n\<close> is \<open>n\<close> such failures in a row, each retry getting the same answers
  from the token store and the transport; it returns which events called \<open>connect()\<close>.
\<close>

definition transport_failure ::
  "(string \<Rightarrow> string \<Rightarrow> string \<Rightarrow> string) \<Rightarrow> error + client_token \<Rightarrow> error option \<Rightarrow> has_provider
     \<Rightarrow> bool \<times> has_provider" where
  "transport_failure mkurl tokr conn hp =
     (let r = on_connection_error mkurl tokr conn hp
      in (fst r,
          (snd r)\<lparr>provider := (provider (snd r))
                    \<lparr>wsUnsuccessfulReconnects :=
                       Suc (wsUnsuccessfulReconnects (provider (snd r)))\<rparr>\<rparr>))"

fun error_burst ::
  "nat \<Rightarrow> (string \<Rightarrow> string \<Rightarrow> string \<Rightarrow> string) \<Rightarrow> error + client_token \<Rightarrow> error option
     \<Rightarrow> has_provider \<Rightarrow> bool list \<times> has_provider" where
  "error_burst 0 mkurl tokr conn hp = ([], hp)"
| "error_burst (Suc n) mkurl tokr conn hp =
     (let r = transport_failure mkurl tokr conn hp;
          rest = error_burst n mkurl tokr conn (snd r)
      in (fst r # fst rest, snd rest))"

section \<open>Concrete inputs\<close>

text \<open>
  Small inputs on which the theorems below are instantiated. \<open>ex_digest\<close> stands in for
  SHA-256 there: 32 bytes, the first one the length of the content.
\<close>

definition ex_digest :: "bytes \<Rightarrow> bytes" where
  "ex_digest b = of_nat (length b) # replicate 31 0"

definition ex_env :: env where
  "ex_env = \<lparr>now_meta = 10, now_sync = 11, uuid = ''u1'', cas_write = Some ''id2'',
             fs_stat = \<lparr>ctime = 12, mtime = 12\<rparr>\<rparr>"

definition ex_folder :: shared_folder where
  "ex_folder =
     \<lparr>sf_guid = ''F'', relayId = Some ''R'', sf_s3rn = S3RemoteFolder ''R'' ''F'',
      hashes = Map.empty, synctimes = Map.empty, cas = [],
      sf_shouldConnect = True, getPath = (\<lambda>p. ''shared/'' @ p)\<rparr>"

definition ex_file :: sync_file where
  "ex_file =
     \<lparr>s3rn = S3RemoteFile ''R'' ''F'' ''g'', path = ''notes/a.md'', name = ''a.md'',
      extension = ''md'', basename = ''a'', guid = ''g'', priv_tfile = None,
      priv_filehash = None, synctime = 0, ready = False, connected = True\<rparr>"

definition ex_info :: file_info where
  "ex_info =
     \<lparr>fi_id = ''id1'',
      meta = \<lparr>m_guid = ''m1'', m_name = ''a.md'', synchash = ''abc'', m_ctime = 1, m_mtime = 2,
              m_parent = None, is_directory = False, m_synctime = 5\<rparr>\<rparr>"

text \<open>A file that exists nowhere yet: no local bytes, no entry in the shared maps.\<close>

definition w_fresh :: world where
  "w_fresh = \<lparr>sfile = ex_file, folder = ex_folder, vault = Map.empty, trace = []\<rparr>"

text \<open>A file that exists locally only.\<close>

definition w_local :: world where
  "w_local =
     \<lparr>sfile = ex_file\<lparr>priv_tfile := Some (TFile \<lparr>tf_path = ''shared/notes/a.md'',
                                                 stat = \<lparr>ctime = 1, mtime = 2\<rparr>\<rparr>),
                       synctime := 2\<rparr>,
      folder = ex_folder,
      vault = [''shared/notes/a.md'' \<mapsto> VFile \<lparr>ctime = 1, mtime = 2\<rparr> [104, 105]],
      trace = []\<rparr>"

text \<open>A file that exists remotely only: the shared maps name a hash the store has.\<close>

definition w_remote :: world where
  "w_remote =
     \<lparr>sfile = ex_file,
      folder = ex_folder\<lparr>hashes := [''g'' \<mapsto> ''abc''], synctimes := [''g'' \<mapsto> 5],
                         cas := [(ex_info, [1, 2])]\<rparr>,
      vault = Map.empty, trace = []\<rparr>"

text \<open>The shared maps name a hash the store does not have.\<close>

definition w_dangling :: world where
  "w_dangling =
     \<lparr>sfile = ex_file, folder = ex_folder\<lparr>hashes := [''g'' \<mapsto> ''abc'']\<rparr>,
      vault = Map.empty, trace = []\<rparr>"

text \<open>
  A file created while its folder had no relay (the constructor gave it the local address
  \<open>S3File\<close>), in a folder that has a relay by now.
\<close>

definition w_local_address :: world where
  "w_local_address =
     \<lparr>sfile = ex_file\<lparr>s3rn := S3File ''F'' ''g''\<rparr>, folder = ex_folder,
      vault = Map.empty, trace = []\<rparr>"

text \<open>
  A second consumer of the folder \<open>w_local\<close> has pushed to, with nothing on disk yet.
\<close>

definition w_other :: world where
  "w_other =
     \<lparr>sfile = ex_file, folder = folder (snd (push ex_env ex_digest w_local)),
      vault = Map.empty, trace = []\<rparr>"

text \<open>
  A connection handle on a remote folder, its socket still connecting, with one
  subscriber; \<open>ex_mkurl\<close> stands in for the transport's derivation of its URL.
\<close>

definition ex_mkurl :: "string \<Rightarrow> string \<Rightarrow> string \<Rightarrow> string" where
  "ex_mkurl base doc tok = base @ ''/'' @ doc @ ''?token='' @ tok"

definition ex_token :: client_token where
  "ex_token = \<lparr>ct_url = ''wss://relay'', token = ''t1'', expiryTime = 100\<rparr>"

definition ex_hp :: has_provider where
  "ex_hp =
     \<lparr>provider = \<lparr>url = ''wss://relay/R-F?token=t1'', shouldConnect = True,
                  wsUnsuccessfulReconnects = 0, ws = Some 0\<rparr>,
      hp_s3rn = S3RemoteFolder ''R'' ''F'', hp_path = Some ''shared'',
      clientToken = ex_token, listeners = [(1, 7)], delivered = []\<rparr>"

definition ex_hp_ws :: "nat option \<Rightarrow> has_provider" where
  "ex_hp_ws r = ex_hp\<lparr>provider := (provider ex_hp)\<lparr>ws := r\<rparr>\<rparr>"

section \<open>Properties of the tracked file\<close>

subsection \<open>Auxiliary facts\<close>

lemma emit_simps:
  "sfile (emit e w) = sfile w" "folder (emit e w) = folder w"
  "vault (emit e w) = vault w" "trace (emit e w) = trace w @ [e]"
  by (simp_all add: emit_def)

lemma getRemote_frame:
  "sfile (snd (getRemote w)) = sfile w" "folder (snd (getRemote w)) = folder w"
  "vault (snd (getRemote w)) = vault w"
  by (simp_all add: getRemote_def emit_simps)

lemma getRemote_trace:
  "trace (snd (getRemote w)) =
     trace w @ (if truthy_str (serverHash w) then [CasGetByHash (the (serverHash w))] else [])"
  by (simp add: getRemote_def emit_simps)

lemma getRemote_value:
  "fst (getRemote w) =
     (if truthy_str (serverHash w) then getByHash (cas (folder w)) (the (serverHash w)) else None)"
  by (simp add: getRemote_def)

lemma tfile_of_present:
  "vault w (getPath (folder w) (path (sfile w))) = Some (VFile st b) \<Longrightarrow>
   tfile_of w = Inr \<lparr>tf_path = getPath (folder w) (path (sfile w)), stat = st\<rparr>"
  by (simp add: tfile_of_def getAbstractFileByPath_def)

lemma tfile_of_absent:
  "(\<forall>st b. vault w (getPath (folder w) (path (sfile w))) \<noteq> Some (VFile st b)) \<Longrightarrow>
   tfile_of w = Inl LocalMaterializationMissing"
  by (auto simp add: tfile_of_def getAbstractFileByPath_def split: option.splits vnode.splits)

lemma updateStats_present:
  "vault w (getPath (folder w) (path (sfile w))) = Some (VFile st b) \<Longrightarrow>
   updateStats dg w =
     (Inr (), (emit (VaultReadBinary (getPath (folder w) (path (sfile w)))) w)
                \<lparr>sfile := (sfile w)\<lparr>priv_filehash := Some (generateHash dg b)\<rparr>\<rparr>)"
  by (simp add: updateStats_def tfile_of_present readBinary_def emit_simps)

lemma updateStats_absent:
  "(\<forall>st b. vault w (getPath (folder w) (path (sfile w))) \<noteq> Some (VFile st b)) \<Longrightarrow>
   updateStats dg w = (Inl LocalMaterializationMissing, w)"
  by (simp add: updateStats_def tfile_of_absent)

lemma getHash_force_present:
  "vault w (getPath (folder w) (path (sfile w))) = Some (VFile st b) \<Longrightarrow>
   getHash dg True w =
     (Inr (Some (generateHash dg b)),
      (emit (VaultReadBinary (getPath (folder w) (path (sfile w)))) w)
        \<lparr>sfile := (sfile w)\<lparr>priv_filehash := Some (generateHash dg b)\<rparr>\<rparr>)"
  by (simp add: getHash_def updateStats_present)

lemma push_write_present:
  "vault w (getPath (folder w) (path (sfile w))) = Some (VFile st b) \<Longrightarrow>
   push_write en fileInfo h content w =
     emit (CasWriteFile
             \<lparr>m_guid = (case fileInfo of Some fi \<Rightarrow> m_guid (meta fi) | None \<Rightarrow> uuid en),
              m_name = name (sfile w), synchash = h, m_ctime = ctime st, m_mtime = mtime st,
              m_parent = None, is_directory = False, m_synctime = now_meta en\<rparr> content)
       (w\<lparr>folder := (folder w)\<lparr>cas := writeFile (cas (folder w))
             \<lparr>m_guid = (case fileInfo of Some fi \<Rightarrow> m_guid (meta fi) | None \<Rightarrow> uuid en),
              m_name = name (sfile w), synchash = h, m_ctime = ctime st, m_mtime = mtime st,
              m_parent = None, is_directory = False, m_synctime = now_meta en\<rparr>
             content (cas_write en)\<rparr>\<rparr>)"
  by (simp add: push_write_def stat_of_def tfile_of_present Let_def)

lemma push_present:
  assumes V: "vault w (getPath (folder w) (path (sfile w))) = Some (VFile st b)"
  shows "push en dg w =
    (let fileInfo = fst (getRemote w);
         p = getPath (folder w) (path (sfile w));
         hash = generateHash dg b;
         w3 = emit (VaultReadBinary p)
                ((emit (VaultReadBinary p) (snd (getRemote w)))
                   \<lparr>sfile := (sfile w)\<lparr>priv_filehash := Some hash\<rparr>\<rparr>);
         w4 = (if map_option (\<lambda>fi. synchash (meta fi)) fileInfo \<noteq> Some hash
               then push_write en fileInfo hash b w3 else w3);
         w5 = w4\<lparr>sfile := (sfile w4)\<lparr>synctime := now_sync en\<rparr>\<rparr>;
         w6 = (if hashes (folder w5) (guid (sfile w5)) \<noteq> Some hash
               then transact [HashesSet (guid (sfile w5)) hash,
                              SynctimesSet (guid (sfile w5)) (synctime (sfile w5))] w5
               else w5)
     in (Inr hash, w6))"
proof -
  let ?w1 = "snd (getRemote w)"
  let ?p = "getPath (folder w) (path (sfile w))"
  let ?w2 = "(emit (VaultReadBinary ?p) ?w1)\<lparr>sfile := (sfile w)\<lparr>priv_filehash := Some (generateHash dg b)\<rparr>\<rparr>"
  have V1: "vault ?w1 (getPath (folder ?w1) (path (sfile ?w1))) = Some (VFile st b)"
    using V by (simp add: getRemote_frame)
  have U: "updateStats dg ?w1 = (Inr (), ?w2)"
    using updateStats_present [OF V1] by (simp add: getRemote_frame)
  have V2: "vault ?w2 (getPath (folder ?w2) (path (sfile ?w2))) = Some (VFile st b)"
    using V by (simp add: getRemote_frame emit_simps)
  have T: "tfile_of ?w2 = Inr \<lparr>tf_path = ?p, stat = st\<rparr>"
    using tfile_of_present [OF V2] by (simp add: getRemote_frame emit_simps)
  have R: "readBinary \<lparr>tf_path = ?p, stat = st\<rparr> ?w2 = (Inr b, emit (VaultReadBinary ?p) ?w2)"
    using V by (simp add: readBinary_def getRemote_frame emit_simps)
  show ?thesis
    by (simp add: push_def case_prod_beta U T R Let_def)
qed

lemma push_value:
  assumes "vault w (getPath (folder w) (path (sfile w))) = Some (VFile st b)"
  shows "fst (push en dg w) = Inr (generateHash dg b)"
  by (simp add: push_present [OF assms] Let_def)

lemma w3_present:
  assumes "vault w (getPath (folder w) (path (sfile w))) = Some (VFile st b)"
  shows "vault (emit e1 ((emit e2 (snd (getRemote w)))\<lparr>sfile := (sfile w)\<lparr>priv_filehash := x\<rparr>\<rparr>))
           (getPath (folder (emit e1 ((emit e2 (snd (getRemote w)))\<lparr>sfile := (sfile w)\<lparr>priv_filehash := x\<rparr>\<rparr>)))
              (path (sfile (emit e1 ((emit e2 (snd (getRemote w)))\<lparr>sfile := (sfile w)\<lparr>priv_filehash := x\<rparr>\<rparr>)))))
         = Some (VFile st b)"
  using assms by (simp add: emit_simps getRemote_frame)

lemma push_sfile:
  assumes "vault w (getPath (folder w) (path (sfile w))) = Some (VFile st b)"
  shows "sfile (snd (push en dg w)) =
           (sfile w)\<lparr>priv_filehash := Some (generateHash dg b), synctime := now_sync en\<rparr>"
  by (simp add: push_present [OF assms] Let_def push_write_present [OF w3_present [OF assms]]
      transact_def emit_simps getRemote_frame)

lemma push_vault:
  assumes "vault w (getPath (folder w) (path (sfile w))) = Some (VFile st b)"
  shows "vault (snd (push en dg w)) = vault w"
  by (simp add: push_present [OF assms] Let_def push_write_present [OF w3_present [OF assms]]
      transact_def emit_simps getRemote_frame)

lemma push_cas:
  assumes "vault w (getPath (folder w) (path (sfile w))) = Some (VFile st b)"
  shows "cas (folder (snd (push en dg w))) =
           (if map_option (\<lambda>fi. synchash (meta fi)) (fst (getRemote w)) \<noteq> Some (generateHash dg b)
            then writeFile (cas (folder w))
                   \<lparr>m_guid = (case fst (getRemote w) of Some fi \<Rightarrow> m_guid (meta fi) | None \<Rightarrow> uuid en),
                    m_name = name (sfile w), synchash = generateHash dg b,
                    m_ctime = ctime st, m_mtime = mtime st,
                    m_parent = None, is_directory = False, m_synctime = now_meta en\<rparr>
                   b (cas_write en)
            else cas (folder w))"
  by (auto simp add: push_present [OF assms] Let_def push_write_present [OF w3_present [OF assms]]
      transact_def emit_simps getRemote_frame)

lemma push_hashes:
  assumes "vault w (getPath (folder w) (path (sfile w))) = Some (VFile st b)"
  shows "hashes (folder (snd (push en dg w))) =
           (if hashes (folder w) (guid (sfile w)) \<noteq> Some (generateHash dg b)
            then (hashes (folder w))(guid (sfile w) \<mapsto> generateHash dg b)
            else hashes (folder w))"
  by (simp add: push_present [OF assms] Let_def push_write_present [OF w3_present [OF assms]]
      transact_def emit_simps getRemote_frame)

lemma push_synctimes:
  assumes "vault w (getPath (folder w) (path (sfile w))) = Some (VFile st b)"
  shows "synctimes (folder (snd (push en dg w))) =
           (if hashes (folder w) (guid (sfile w)) \<noteq> Some (generateHash dg b)
            then (synctimes (folder w))(guid (sfile w) \<mapsto> now_sync en)
            else synctimes (folder w))"
  by (simp add: push_present [OF assms] Let_def push_write_present [OF w3_present [OF assms]]
      transact_def emit_simps getRemote_frame)

lemma push_getPath:
  assumes "vault w (getPath (folder w) (path (sfile w))) = Some (VFile st b)"
  shows "getPath (folder (snd (push en dg w))) = getPath (folder w)"
  by (simp add: push_present [OF assms] Let_def push_write_present [OF w3_present [OF assms]]
      transact_def emit_simps getRemote_frame)

lemma push_trace:
  assumes "vault w (getPath (folder w) (path (sfile w))) = Some (VFile st b)"
  shows "trace (snd (push en dg w)) =
           trace w
           @ (if truthy_str (serverHash w) then [CasGetByHash (the (serverHash w))] else [])
           @ [VaultReadBinary (getPath (folder w) (path (sfile w))),
              VaultReadBinary (getPath (folder w) (path (sfile w)))]
           @ (if map_option (\<lambda>fi. synchash (meta fi)) (fst (getRemote w)) \<noteq> Some (generateHash dg b)
              then [CasWriteFile
                      \<lparr>m_guid = (case fst (getRemote w) of Some fi \<Rightarrow> m_guid (meta fi) | None \<Rightarrow> uuid en),
                       m_name = name (sfile w), synchash = generateHash dg b,
                       m_ctime = ctime st, m_mtime = mtime st,
                       m_parent = None, is_directory = False, m_synctime = now_meta en\<rparr> b]
              else [])
           @ (if hashes (folder w) (guid (sfile w)) \<noteq> Some (generateHash dg b)
              then [YdocTransact [HashesSet (guid (sfile w)) (generateHash dg b),
                                  SynctimesSet (guid (sfile w)) (now_sync en)]]
              else [])"
  by (auto simp add: push_present [OF assms] Let_def push_write_present [OF w3_present [OF assms]]
      transact_def emit_simps getRemote_frame getRemote_trace)

lemma getByHash_hash: "getByHash c h = Some fi \<Longrightarrow> synchash (meta fi) = h"
  by (induction c) (auto simp add: getByHash_def split: if_splits)

lemma getByHash_None_iff: "getByHash c h = None \<longleftrightarrow> (\<forall>r \<in> set c. synchash (meta (fst r)) \<noteq> h)"
  by (auto simp add: getByHash_def find_None_iff)

lemma getByHash_synchash:
  "map_option (\<lambda>fi. synchash (meta fi)) (getByHash c h) =
     (if getByHash c h = None then None else Some h)"
  by (cases "getByHash c h") (auto dest: getByHash_hash)

lemma getByHash_append_hit:
  "synchash m = h \<Longrightarrow> getByHash (c @ [(\<lparr>fi_id = i, meta = m\<rparr>, b)]) h \<noteq> None"
  by (simp add: getByHash_None_iff)

lemma generateHash_nonempty: "dg b \<noteq> [] \<Longrightarrow> generateHash dg b \<noteq> []"
  by (cases "dg b") (simp_all add: generateHash_def byte_hex_def)

lemma pull_no_hash:
  "\<not> truthy_str (serverHash w) \<Longrightarrow>
   pull en dg w = (Inl (ServerHashMissing (path (sfile w))), w)"
  by (simp add: pull_def)

lemma serverHash_emit: "serverHash (emit e w) = serverHash w"
  by (simp add: serverHash_def emit_simps)

lemma pull_no_content:
  assumes "serverHash w = Some h" "h \<noteq> []" "getByHash (cas (folder w)) h = None"
  shows "pull en dg w =
           (Inl (ServerContentMissing (path (sfile w)) h),
            emit (CasGetByHash h) (emit (CasGetByHash h) w))"
  using assms
  by (simp add: pull_def truthy_str_def getRemote_def serverHash_emit emit_simps)

lemma pull_success:
  assumes "pull en dg w = (Inr (), w')"
  shows "\<exists>h fi content.
           serverHash w = Some h \<and> h \<noteq> [] \<and> getByHash (cas (folder w)) h = Some fi \<and>
           readFile (cas (folder w)) (fi_id fi) = Some content \<and>
           vault w (getPath (folder w) (path (sfile w))) \<noteq> Some VFolder \<and>
           w' = w\<lparr>vault := (vault w)(getPath (folder w) (path (sfile w)) \<mapsto>
                               VFile (fs_stat en) content),
                  sfile := (sfile w)
                    \<lparr>priv_filehash := Some (generateHash dg content),
                     priv_tfile := Some (TFile \<lparr>tf_path = getPath (folder w) (path (sfile w)),
                                                stat = fs_stat en\<rparr>)\<rparr>,
                  trace := trace w @ [CasGetByHash h, CasGetByHash h, CasReadFile (fi_id fi),
                                      AdapterWriteBinary (getPath (folder w) (path (sfile w))) content]\<rparr>"
proof -
  from assms have T: "truthy_str (serverHash w)"
    by (auto simp add: pull_def split: if_splits)
  then obtain h where H: "serverHash w = Some h" "h \<noteq> []"
    by (auto simp add: truthy_str_def split: option.splits)
  let ?w1 = "emit (CasGetByHash h) (emit (CasGetByHash h) w)"
  have G: "getRemote (emit (CasGetByHash h) w) = (getByHash (cas (folder w)) h, ?w1)"
    using H by (simp add: getRemote_def serverHash_emit truthy_str_def emit_simps)
  from assms T H G obtain fi where F: "getByHash (cas (folder w)) h = Some fi"
    by (cases "getByHash (cas (folder w)) h") (auto simp add: pull_def)
  from assms T H G F obtain content where C: "readFile (cas (folder w)) (fi_id fi) = Some content"
    by (cases "readFile (cas (folder w)) (fi_id fi)") (auto simp add: pull_def emit_simps)
  from assms T H G F C have NF: "vault w (getPath (folder w) (path (sfile w))) \<noteq> Some VFolder"
    by (auto simp add: pull_def emit_simps writeBinary_def)
  from assms T H G F C NF have
    "w' = w\<lparr>vault := (vault w)(getPath (folder w) (path (sfile w)) \<mapsto> VFile (fs_stat en) content),
            sfile := (sfile w)
              \<lparr>priv_filehash := Some (generateHash dg content),
               priv_tfile := Some (TFile \<lparr>tf_path = getPath (folder w) (path (sfile w)),
                                          stat = fs_stat en\<rparr>)\<rparr>,
            trace := trace w @ [CasGetByHash h, CasGetByHash h, CasReadFile (fi_id fi),
                                AdapterWriteBinary (getPath (folder w) (path (sfile w))) content]\<rparr>"
    by (auto simp add: pull_def emit_simps writeBinary_def emit_def getAbstractFileByPath_def
        split: option.splits vnode.splits)
  with H F C NF show ?thesis by blast
qed

subsection \<open>shouldPull and shouldPush\<close>

text \<open>
  Claim C1. With \<open>remoteSyncTime = synctimes[guid]\<close> defaulting to 0, \<open>shouldPull\<close> is
  \<open>remoteSyncTime > localSyncTime\<close>, and \<open>shouldPush\<close> is to be
  \<open>remoteSyncTime < localSyncTime\<close> or "the store has no metadata for \<open>serverHash\<close>".
  The first half holds (\<open>shouldPull_remote_newer\<close> below). The second does not: \<open>shouldPush\<close> tests the
  promise of \<open>getRemote()\<close>, not its result, so \<open>serverHasContent\<close> is always true. On
  \<open>w_dangling\<close> the shared map names the hash \<open>abc\<close>, the store has no record for it, the
  two times are equal, and \<open>shouldPush\<close> is false where the claim makes it true.
\<close>

lemma js_or_zero: "js_or x (0::int) = (case x of None \<Rightarrow> 0 | Some t \<Rightarrow> t)"
  by (simp add: js_or_def split: option.splits)

lemma shouldPush_times_only:
  "fst (shouldPush w) = (js_or (synctimes (folder w) (guid (sfile w))) 0 < synctime (sfile w))"
  by (simp add: shouldPush_def truthy_promise_def Let_def)

theorem shouldPush_dangling_hash:
  "serverHash w_dangling = Some ''abc'' \<and>
   getByHash (cas (folder w_dangling)) ''abc'' = None \<and>
   js_or (synctimes (folder w_dangling) (guid (sfile w_dangling))) 0 = synctime (sfile w_dangling) \<and>
   fst (shouldPush w_dangling) = False"
  by (simp add: shouldPush_def w_dangling_def ex_folder_def ex_file_def serverHash_def
      getByHash_def js_or_def truthy_promise_def Let_def)

text \<open>The half of the claim that holds: \<open>shouldPull\<close> compares the two times.\<close>

theorem shouldPull_remote_newer:
  "shouldPull w =
     (synctime (sfile w) < (case synctimes (folder w) (guid (sfile w)) of None \<Rightarrow> 0 | Some t \<Rightarrow> t))"
  by (simp add: shouldPull_def js_or_zero)

subsection \<open>isStale\<close>

text \<open>
  Claim C2, as stated: \<open>isStale\<close> is \<open>localHash !== serverHash\<close>, and a freshly constructed
  file with no cached local hash and no server hash reports \<open>isStale === true\<close>. The second
  half fails: \<open>undefined !== undefined\<close> is false. The file is constructed with no hash
  argument in a folder whose shared map has no entry for it.
\<close>

theorem isStale_fresh_file_counterexample:
  "priv_filehash (new_SyncFile ''notes/a.md'' UndefinedArg ''g'' ex_folder Map.empty) = None \<and>
   hashes ex_folder ''g'' = None \<and>
   isStale \<lparr>sfile = new_SyncFile ''notes/a.md'' UndefinedArg ''g'' ex_folder Map.empty,
            folder = ex_folder, vault = Map.empty, trace = []\<rparr> = False"
  by (simp add: isStale_def new_SyncFile_def ex_folder_def Let_def)

text \<open>
  Claim C2, amended: \<open>isStale\<close> is \<open>localHash !== serverHash\<close>, where \<open>undefined\<close> differs
  from every hash and equals \<open>undefined\<close>; so a file constructed without a hash (with no
  argument, or with a file handle) is stale exactly when the shared map has a hash for it,
  and is not stale when there is no server hash.
\<close>

theorem isStale_strict_inequality:
  "isStale w = (priv_filehash (sfile w) \<noteq> serverHash w) \<and>
   isStale \<lparr>sfile = new_SyncFile p UndefinedArg g parent v,
            folder = parent, vault = v, trace = tr\<rparr> = (hashes parent g \<noteq> None) \<and>
   isStale \<lparr>sfile = new_SyncFile p (FileArg t) g parent v,
            folder = parent, vault = v, trace = tr\<rparr> = (hashes parent g \<noteq> None)"
  by (cases "hashes parent g") (simp_all add: isStale_def serverHash_def new_SyncFile_def Let_def)

subsection \<open>pull\<close>

text \<open>
  Claim C5. \<open>pull\<close> fails with \<open>ServerHashMissing\<close> whenever \<open>serverHash\<close> is undefined,
  and with \<open>ServerContentMissing\<close> whenever \<open>serverHash\<close> is set but the store has no
  metadata record for it. A server hash that is set is a hash \<open>push\<close> has stored: the hex
  of a digest, which is not empty (\<open>generateHash_nonempty\<close>, \<open>push_serverHash\<close>).
  In both cases nothing is written to the local byte store: in the first nothing is called
  at all, in the second the only calls are the two lookups in the store, and vault, file
  and folder are as before. The guard of the first failure is the truthiness test
  \<open>!this.serverHash\<close>, which is the second conjunct.
\<close>

theorem pull_failures:
  "(serverHash w = None \<longrightarrow>
      pull en dg w = (Inl (ServerHashMissing (path (sfile w))), w)) \<and>
   (\<not> truthy_str (serverHash w) \<longrightarrow>
      pull en dg w = (Inl (ServerHashMissing (path (sfile w))), w)) \<and>
   (serverHash w = Some h \<and> h \<noteq> [] \<and> getByHash (cas (folder w)) h = None \<longrightarrow>
      fst (pull en dg w) = Inl (ServerContentMissing (path (sfile w)) h) \<and>
      vault (snd (pull en dg w)) = vault w \<and>
      sfile (snd (pull en dg w)) = sfile w \<and>
      folder (snd (pull en dg w)) = folder w \<and>
      trace (snd (pull en dg w)) = trace w @ [CasGetByHash h, CasGetByHash h])"
  by (simp add: pull_no_hash pull_no_content emit_simps truthy_str_def)

theorem pull_failures_witness:
  "pull ex_env ex_digest w_fresh = (Inl (ServerHashMissing ''notes/a.md''), w_fresh) \<and>
   fst (pull ex_env ex_digest w_dangling) = Inl (ServerContentMissing ''notes/a.md'' ''abc'') \<and>
   vault (snd (pull ex_env ex_digest w_dangling)) = vault w_dangling \<and>
   trace (snd (pull ex_env ex_digest w_dangling)) = [CasGetByHash ''abc'', CasGetByHash ''abc'']"
proof -
  have a: "serverHash w_fresh = None" "\<not> truthy_str (serverHash w_fresh)"
    by (simp_all add: truthy_str_def serverHash_def w_fresh_def ex_folder_def ex_file_def)
  have b: "serverHash w_dangling = Some ''abc'' \<and> ''abc'' \<noteq> [] \<and>
           getByHash (cas (folder w_dangling)) ''abc'' = None"
    by (simp add: serverHash_def w_dangling_def ex_folder_def ex_file_def getByHash_def)
  have p: "path (sfile w_fresh) = ''notes/a.md''" "path (sfile w_dangling) = ''notes/a.md''"
    "trace w_dangling = []"
    by (simp_all add: w_fresh_def w_dangling_def ex_file_def)
  show ?thesis
    using a b pull_failures [where w = w_fresh and en = ex_env and dg = ex_digest]
      pull_failures [where w = w_dangling and h = "''abc''" and en = ex_env and dg = ex_digest]
    by (simp add: p)
qed

text \<open>
  Claim C10. A successful \<open>pull\<close> changes only the local bytes at the file's resolved
  path, the cached local hash and the cached file handle: \<open>guid\<close>, \<open>path\<close>, \<open>connected\<close>,
  \<open>synctime\<close> and the folder with both shared maps stay as they are, every other field of
  the file too, and so does \<open>shouldPull\<close>.
\<close>

theorem pull_frame:
  assumes "pull en dg w = (Inr (), w')"
  shows "guid (sfile w') = guid (sfile w) \<and> path (sfile w') = path (sfile w) \<and>
         connected (sfile w') = connected (sfile w) \<and>
         synctime (sfile w') = synctime (sfile w) \<and>
         hashes (folder w') = hashes (folder w) \<and>
         synctimes (folder w') = synctimes (folder w) \<and>
         folder w' = folder w \<and>
         sfile w' = (sfile w)\<lparr>priv_filehash := priv_filehash (sfile w'),
                                priv_tfile := priv_tfile (sfile w')\<rparr> \<and>
         (\<forall>q. q \<noteq> getPath (folder w) (path (sfile w)) \<longrightarrow> vault w' q = vault w q) \<and>
         shouldPull w' = shouldPull w"
  using pull_success [OF assms]
  by (elim exE conjE) (simp add: shouldPull_def)

lemma pull_w_remote:
  "pull ex_env ex_digest w_remote =
     (Inr (),
      w_remote\<lparr>vault := [''shared/notes/a.md'' \<mapsto> VFile \<lparr>ctime = 12, mtime = 12\<rparr> [1, 2]],
               sfile := ex_file\<lparr>priv_filehash := Some (generateHash ex_digest [1, 2]),
                                 priv_tfile := Some (TFile \<lparr>tf_path = ''shared/notes/a.md'',
                                                            stat = \<lparr>ctime = 12, mtime = 12\<rparr>\<rparr>)\<rparr>,
               trace := [CasGetByHash ''abc'', CasGetByHash ''abc'', CasReadFile ''id1'',
                         AdapterWriteBinary ''shared/notes/a.md'' [1, 2]]\<rparr>)"
  by (simp add: pull_def w_remote_def ex_folder_def ex_file_def ex_info_def ex_env_def
      truthy_str_def serverHash_def getRemote_def emit_def getByHash_def readFile_def
      writeBinary_def getAbstractFileByPath_def)

theorem pull_frame_witness:
  "fst (pull ex_env ex_digest w_remote) = Inr () \<and>
   synctime (sfile (snd (pull ex_env ex_digest w_remote))) = 0 \<and>
   hashes (folder (snd (pull ex_env ex_digest w_remote))) ''g'' = Some ''abc'' \<and>
   shouldPull (snd (pull ex_env ex_digest w_remote)) = True \<and> shouldPull w_remote = True"
proof -
  have e: "pull ex_env ex_digest w_remote = (Inr (), snd (pull ex_env ex_digest w_remote))"
    by (simp add: pull_w_remote)
  have e1: "fst (pull ex_env ex_digest w_remote) = Inr ()"
    by (simp add: pull_w_remote)
  have s: "synctime (sfile w_remote) = 0" "hashes (folder w_remote) ''g'' = Some ''abc''"
    "shouldPull w_remote"
    by (simp_all add: w_remote_def ex_file_def ex_folder_def shouldPull_def js_or_def)
  note f = pull_frame [OF e]
  show ?thesis
    using f s e1 by simp
qed

subsection \<open>sync\<close>

lemma drop_value_push:
  "(case push en dg w of (Inl e, w2) \<Rightarrow> (Inl e, w2) | (Inr h, w2) \<Rightarrow> (Inr (), w2)) =
     (map_sum id (\<lambda>h. ()) (fst (push en dg w)), snd (push en dg w))"
  by (cases "push en dg w") (auto split: sum.splits)

text \<open>
  Claim C3. \<open>sync\<close> returns at once, with the world as it was (so with no call of the
  store or the byte store), whenever \<open>connected\<close> is false. When connected with no
  local file handle it is \<open>pull\<close>. Otherwise it recomputes the local hash from the bytes
  in the vault (one read, the hash stored) and is \<open>pull\<close> when \<open>isStale\<close> and
  \<open>shouldPull\<close> hold after that, else \<open>push\<close> with its value dropped. Where the vault
  has no file at the path the recomputation throws, and \<open>sync\<close> with it.
\<close>

theorem sync_decision:
  "(\<not> connected (sfile w) \<longrightarrow> sync en dg w = (Inr (), w)) \<and>
   (connected (sfile w) \<and> priv_tfile (sfile w) = None \<longrightarrow> sync en dg w = pull en dg w) \<and>
   (connected (sfile w) \<and> priv_tfile (sfile w) \<noteq> None \<and>
    vault w (getPath (folder w) (path (sfile w))) = Some (VFile st b) \<longrightarrow>
      (let w1 = (emit (VaultReadBinary (getPath (folder w) (path (sfile w)))) w)
                  \<lparr>sfile := (sfile w)\<lparr>priv_filehash := Some (generateHash dg b)\<rparr>\<rparr>
       in getHash dg True w = (Inr (Some (generateHash dg b)), w1) \<and>
          (isStale w1 \<and> shouldPull w1 \<longrightarrow> sync en dg w = pull en dg w1) \<and>
          (\<not> (isStale w1 \<and> shouldPull w1) \<longrightarrow>
             sync en dg w = (map_sum id (\<lambda>h. ()) (fst (push en dg w1)), snd (push en dg w1))))) \<and>
   (connected (sfile w) \<and> priv_tfile (sfile w) \<noteq> None \<and>
    (\<forall>st b. vault w (getPath (folder w) (path (sfile w))) \<noteq> Some (VFile st b)) \<longrightarrow>
      sync en dg w = (Inl LocalMaterializationMissing, w))"
proof (intro conjI impI)
  assume "\<not> connected (sfile w)"
  then show "sync en dg w = (Inr (), w)" by (simp add: sync_def)
next
  assume "connected (sfile w) \<and> priv_tfile (sfile w) = None"
  then show "sync en dg w = pull en dg w" by (simp add: sync_def)
next
  assume a: "connected (sfile w) \<and> priv_tfile (sfile w) \<noteq> None \<and>
    vault w (getPath (folder w) (path (sfile w))) = Some (VFile st b)"
  then have V: "vault w (getPath (folder w) (path (sfile w))) = Some (VFile st b)" by simp
  show "let w1 = (emit (VaultReadBinary (getPath (folder w) (path (sfile w)))) w)
                  \<lparr>sfile := (sfile w)\<lparr>priv_filehash := Some (generateHash dg b)\<rparr>\<rparr>
       in getHash dg True w = (Inr (Some (generateHash dg b)), w1) \<and>
          (isStale w1 \<and> shouldPull w1 \<longrightarrow> sync en dg w = pull en dg w1) \<and>
          (\<not> (isStale w1 \<and> shouldPull w1) \<longrightarrow>
             sync en dg w = (map_sum id (\<lambda>h. ()) (fst (push en dg w1)), snd (push en dg w1)))"
    using a by (auto simp add: Let_def sync_def getHash_force_present [OF V] drop_value_push)
next
  assume a: "connected (sfile w) \<and> priv_tfile (sfile w) \<noteq> None \<and>
    (\<forall>st b. vault w (getPath (folder w) (path (sfile w))) \<noteq> Some (VFile st b))"
  then have "updateStats dg w = (Inl LocalMaterializationMissing, w)"
    by (simp add: updateStats_absent)
  with a show "sync en dg w = (Inl LocalMaterializationMissing, w)"
    by (auto simp add: sync_def getHash_def)
qed

lemma w_local_present:
  "vault w_local (getPath (folder w_local) (path (sfile w_local))) =
     Some (VFile \<lparr>ctime = 1, mtime = 2\<rparr> [104, 105])"
  by (simp add: w_local_def ex_folder_def ex_file_def)

theorem sync_decision_witness:
  "sync ex_env ex_digest (disconnect w_local) = (Inr (), disconnect w_local) \<and>
   sync ex_env ex_digest w_remote = pull ex_env ex_digest w_remote \<and>
   fst (sync ex_env ex_digest w_local) = Inr () \<and>
   hashes (folder (snd (sync ex_env ex_digest w_local))) ''g'' =
     Some (generateHash ex_digest [104, 105]) \<and>
   sync ex_env ex_digest (w_fresh\<lparr>sfile := ex_file\<lparr>priv_tfile := Some TFolder\<rparr>\<rparr>) =
     (Inl LocalMaterializationMissing, w_fresh\<lparr>sfile := ex_file\<lparr>priv_tfile := Some TFolder\<rparr>\<rparr>)"
proof -
  let ?w1 = "(emit (VaultReadBinary (getPath (folder w_local) (path (sfile w_local)))) w_local)
               \<lparr>sfile := (sfile w_local)\<lparr>priv_filehash := Some (generateHash ex_digest [104, 105])\<rparr>\<rparr>"
  let ?w4 = "w_fresh\<lparr>sfile := ex_file\<lparr>priv_tfile := Some TFolder\<rparr>\<rparr>"
  have a1: "\<not> connected (sfile (disconnect w_local))"
    by (simp add: disconnect_def)
  have a2: "connected (sfile w_remote) \<and> priv_tfile (sfile w_remote) = None"
    by (simp add: w_remote_def ex_file_def)
  have a3: "connected (sfile w_local) \<and> priv_tfile (sfile w_local) \<noteq> None \<and>
            vault w_local (getPath (folder w_local) (path (sfile w_local))) =
              Some (VFile \<lparr>ctime = 1, mtime = 2\<rparr> [104, 105])"
    by (simp add: w_local_def ex_file_def ex_folder_def)
  have a4: "connected (sfile ?w4) \<and> priv_tfile (sfile ?w4) \<noteq> None \<and>
            (\<forall>st b. vault ?w4 (getPath (folder ?w4) (path (sfile ?w4))) \<noteq> Some (VFile st b))"
    by (simp add: w_fresh_def ex_file_def)
  have n3: "\<not> (isStale ?w1 \<and> shouldPull ?w1)"
    by (simp add: shouldPull_def emit_simps w_local_def ex_file_def ex_folder_def js_or_def)
  have V1: "vault ?w1 (getPath (folder ?w1) (path (sfile ?w1))) =
              Some (VFile \<lparr>ctime = 1, mtime = 2\<rparr> [104, 105])"
    by (simp add: emit_simps w_local_def ex_file_def ex_folder_def)
  have p3: "fst (push ex_env ex_digest ?w1) = Inr (generateHash ex_digest [104, 105])"
    by (rule push_value [OF V1])
  have h3: "hashes (folder (snd (push ex_env ex_digest ?w1))) ''g'' =
              Some (generateHash ex_digest [104, 105])"
    using push_hashes [OF V1, where en = ex_env and dg = ex_digest]
    by (simp add: emit_simps w_local_def ex_file_def ex_folder_def)
  show ?thesis
    using a1 a2 a3 a4 n3 p3 h3
      sync_decision [where w = "disconnect w_local" and en = ex_env and dg = ex_digest]
      sync_decision [where w = w_remote and en = ex_env and dg = ex_digest]
      sync_decision [where w = w_local and en = ex_env and dg = ex_digest
                       and st = "\<lparr>ctime = 1, mtime = 2\<rparr>" and b = "[104, 105]"]
      sync_decision [where w = ?w4 and en = ex_env and dg = ex_digest]
    by (simp add: Let_def)
qed

subsection \<open>push\<close>

lemma push_keeps_local:
  assumes V: "vault w (getPath (folder w) (path (sfile w))) = Some (VFile st b)"
  shows "vault (snd (push en dg w))
           (getPath (folder (snd (push en dg w))) (path (sfile (snd (push en dg w))))) =
         Some (VFile st b)"
  using V by (simp add: push_vault [OF V] push_getPath [OF V] push_sfile [OF V])

lemma push_serverHash:
  assumes V: "vault w (getPath (folder w) (path (sfile w))) = Some (VFile st b)"
  shows "serverHash (snd (push en dg w)) = Some (generateHash dg b)"
  by (simp add: serverHash_def push_hashes [OF V] push_sfile [OF V])

lemma writeFile_length: "length (writeFile c m content outcome) \<le> Suc (length c)"
  by (simp add: writeFile_def split: option.splits)

lemma push_twice_cas:
  assumes V: "vault w (getPath (folder w) (path (sfile w))) = Some (VFile st b)"
      and D: "dg b \<noteq> []"
  shows "cas (folder (snd (push en' dg (snd (push en dg w))))) = cas (folder (snd (push en dg w)))
         \<or> cas (folder (snd (push en dg w))) = cas (folder w)"
proof -
  let ?h = "generateHash dg b"
  let ?w1 = "snd (push en dg w)"
  have V1: "vault ?w1 (getPath (folder ?w1) (path (sfile ?w1))) = Some (VFile st b)"
    by (rule push_keeps_local [OF V])
  have S1: "serverHash ?w1 = Some ?h" by (rule push_serverHash [OF V])
  have N: "?h \<noteq> []" by (rule generateHash_nonempty [where dg = dg and b = b, OF D])
  have R1: "fst (getRemote ?w1) = getByHash (cas (folder ?w1)) ?h"
    using S1 N by (simp add: getRemote_value truthy_str_def)
  show ?thesis
  proof (cases "getByHash (cas (folder ?w1)) ?h = None")
    case False
    then have "map_option (\<lambda>fi. synchash (meta fi)) (fst (getRemote ?w1)) = Some ?h"
      by (simp add: R1 getByHash_synchash)
    then show ?thesis by (simp add: push_cas [OF V1])
  next
    case True
    have "cas (folder ?w1) = cas (folder w)"
    proof (cases "map_option (\<lambda>fi. synchash (meta fi)) (fst (getRemote w)) = Some ?h")
      case True
      then show ?thesis by (simp add: push_cas [OF V])
    next
      case False
      then have C: "cas (folder ?w1) =
          writeFile (cas (folder w))
            \<lparr>m_guid = (case fst (getRemote w) of Some fi \<Rightarrow> m_guid (meta fi) | None \<Rightarrow> uuid en),
             m_name = name (sfile w), synchash = ?h, m_ctime = ctime st, m_mtime = mtime st,
             m_parent = None, is_directory = False, m_synctime = now_meta en\<rparr>
            b (cas_write en)"
        by (simp add: push_cas [OF V])
      show ?thesis
      proof (cases "cas_write en")
        case None
        then show ?thesis by (simp add: C writeFile_def)
      next
        case (Some i)
        then have "getByHash (cas (folder ?w1)) ?h \<noteq> None"
          by (simp add: C writeFile_def getByHash_append_hit)
        with True show ?thesis by simp
      qed
    qed
    then show ?thesis by simp
  qed
qed

lemma push_cas_length:
  assumes V: "vault w (getPath (folder w) (path (sfile w))) = Some (VFile st b)"
  shows "length (cas (folder (snd (push en dg w)))) \<le> Suc (length (cas (folder w)))"
  by (simp add: push_cas [OF V] writeFile_length)

text \<open>
  Claim C4. For a file whose bytes \<open>b\<close> are in the vault, \<open>push\<close> returns the hash of
  \<open>b\<close> and caches it; it asks the store to write a record with \<open>b\<close> exactly when that
  hash differs from the hash of the remote metadata (or there is none), and returns the
  hash whether the store accepts the write or refuses it; it sets \<open>synctime\<close> to now; it
  sets \<open>hashes[guid]\<close> and \<open>synctimes[guid]\<close> in one transaction exactly when the hash
  differs from \<open>hashes[guid]\<close>. A second \<open>push\<close> of the same bytes returns the same
  hash, leaves the shared maps alone, and both together add at most one record to the
  store. The digest of \<open>b\<close> is not empty (SHA-256 gives 32 bytes).
\<close>

theorem push_contract:
  assumes V: "vault w (getPath (folder w) (path (sfile w))) = Some (VFile st b)"
      and D: "dg b \<noteq> []"
  shows
   "fst (push en dg w) = Inr (generateHash dg b) \<and>
    priv_filehash (sfile (snd (push en dg w))) = Some (generateHash dg b) \<and>
    synctime (sfile (snd (push en dg w))) = now_sync en \<and>
    cas (folder (snd (push en dg w))) =
      (if map_option (\<lambda>fi. synchash (meta fi)) (fst (getRemote w)) \<noteq> Some (generateHash dg b)
       then writeFile (cas (folder w))
              \<lparr>m_guid = (case fst (getRemote w) of Some fi \<Rightarrow> m_guid (meta fi) | None \<Rightarrow> uuid en),
               m_name = name (sfile w), synchash = generateHash dg b,
               m_ctime = ctime st, m_mtime = mtime st,
               m_parent = None, is_directory = False, m_synctime = now_meta en\<rparr>
              b (cas_write en)
       else cas (folder w)) \<and>
    hashes (folder (snd (push en dg w))) =
      (if hashes (folder w) (guid (sfile w)) \<noteq> Some (generateHash dg b)
       then (hashes (folder w))(guid (sfile w) \<mapsto> generateHash dg b)
       else hashes (folder w)) \<and>
    synctimes (folder (snd (push en dg w))) =
      (if hashes (folder w) (guid (sfile w)) \<noteq> Some (generateHash dg b)
       then (synctimes (folder w))(guid (sfile w) \<mapsto> now_sync en)
       else synctimes (folder w)) \<and>
    trace (snd (push en dg w)) =
      trace w
      @ (if truthy_str (serverHash w) then [CasGetByHash (the (serverHash w))] else [])
      @ [VaultReadBinary (getPath (folder w) (path (sfile w))),
         VaultReadBinary (getPath (folder w) (path (sfile w)))]
      @ (if map_option (\<lambda>fi. synchash (meta fi)) (fst (getRemote w)) \<noteq> Some (generateHash dg b)
         then [CasWriteFile
                 \<lparr>m_guid = (case fst (getRemote w) of Some fi \<Rightarrow> m_guid (meta fi) | None \<Rightarrow> uuid en),
                  m_name = name (sfile w), synchash = generateHash dg b,
                  m_ctime = ctime st, m_mtime = mtime st,
                  m_parent = None, is_directory = False, m_synctime = now_meta en\<rparr> b]
         else [])
      @ (if hashes (folder w) (guid (sfile w)) \<noteq> Some (generateHash dg b)
         then [YdocTransact [HashesSet (guid (sfile w)) (generateHash dg b),
                             SynctimesSet (guid (sfile w)) (now_sync en)]]
         else []) \<and>
    fst (push en' dg (snd (push en dg w))) = Inr (generateHash dg b) \<and>
    length (cas (folder (snd (push en' dg (snd (push en dg w)))))) \<le> Suc (length (cas (folder w))) \<and>
    hashes (folder (snd (push en' dg (snd (push en dg w))))) = hashes (folder (snd (push en dg w))) \<and>
    synctimes (folder (snd (push en' dg (snd (push en dg w))))) =
      synctimes (folder (snd (push en dg w)))"
proof -
  let ?w1 = "snd (push en dg w)"
  have V1: "vault ?w1 (getPath (folder ?w1) (path (sfile ?w1))) = Some (VFile st b)"
    by (rule push_keeps_local [OF V])
  have second: "fst (push en' dg ?w1) = Inr (generateHash dg b)"
    by (rule push_value [OF V1])
  have len: "length (cas (folder (snd (push en' dg ?w1)))) \<le> Suc (length (cas (folder w)))"
    using push_twice_cas [where dg = dg and b = b and en = en and en' = en', OF V D] push_cas_length [OF V, of en dg]
      push_cas_length [OF V1, of en' dg]
    by auto
  have S1: "hashes (folder ?w1) (guid (sfile ?w1)) = Some (generateHash dg b)"
    using push_serverHash [OF V, of en dg] by (simp add: serverHash_def)
  have h2: "hashes (folder (snd (push en' dg ?w1))) = hashes (folder ?w1)"
    by (simp add: push_hashes [OF V1] S1)
  have t2: "synctimes (folder (snd (push en' dg ?w1))) = synctimes (folder ?w1)"
    by (simp add: push_synctimes [OF V1] S1)
  show ?thesis
    using push_value [OF V, of en dg] push_sfile [OF V, of en dg] push_cas [OF V, of en dg]
      push_hashes [OF V, of en dg] push_synctimes [OF V, of en dg] push_trace [OF V, of en dg]
      second len h2 t2
    by simp
qed

theorem push_contract_witness:
  "fst (push ex_env ex_digest w_local) = Inr (generateHash ex_digest [104, 105]) \<and>
   cas (folder (snd (push ex_env ex_digest w_local))) =
     [(\<lparr>fi_id = ''id2'',
        meta = \<lparr>m_guid = ''u1'', m_name = ''a.md'', synchash = generateHash ex_digest [104, 105],
                m_ctime = 1, m_mtime = 2, m_parent = None, is_directory = False,
                m_synctime = 10\<rparr>\<rparr>, [104, 105])] \<and>
   hashes (folder (snd (push ex_env ex_digest w_local))) ''g'' =
     Some (generateHash ex_digest [104, 105]) \<and>
   synctimes (folder (snd (push ex_env ex_digest w_local))) ''g'' = Some 11 \<and>
   fst (push ex_env ex_digest (snd (push ex_env ex_digest w_local))) =
     Inr (generateHash ex_digest [104, 105]) \<and>
   length (cas (folder (snd (push ex_env ex_digest (snd (push ex_env ex_digest w_local)))))) \<le> 1"
proof -
  have D: "ex_digest [104, 105] \<noteq> []" by (simp add: ex_digest_def)
  note c = push_contract [where w = w_local and dg = ex_digest and b = "[104, 105]"
      and st = "\<lparr>ctime = 1, mtime = 2\<rparr>" and en = ex_env and en' = ex_env,
      OF w_local_present D]
  have f: "cas (folder w_local) = []" "fst (getRemote w_local) = None"
    "name (sfile w_local) = ''a.md''" "guid (sfile w_local) = ''g''"
    "hashes (folder w_local) = Map.empty" "synctimes (folder w_local) = Map.empty"
    by (simp_all add: w_local_def ex_folder_def ex_file_def getRemote_def serverHash_def
        truthy_str_def)
  have e: "cas_write ex_env = Some ''id2''" "uuid ex_env = ''u1''" "now_meta ex_env = 10"
    "now_sync ex_env = 11"
    by (simp_all add: ex_env_def)
  show ?thesis
    using c by (simp add: f e writeFile_def)
qed

subsection \<open>connect\<close>

lemma SyncFile_connect_s3rn:
  "s3rn (sfile (snd (SyncFile_connect w))) =
     (if \<not> is_S3Folder (sf_s3rn (folder w)) \<and> is_S3Document (s3rn (sfile w))
      then (if truthy_str (relayId (folder w))
            then S3RemoteFile (the (relayId (folder w))) (sf_guid (folder w)) (guid (sfile w))
            else S3File (sf_guid (folder w)) (guid (sfile w)))
      else s3rn (sfile w))"
  by (simp add: SyncFile_connect_def Let_def)

text \<open>
  Claim C9. A file with a local address in a folder that has a relay is to get the remote
  address on \<open>connect()\<close>. The constructor gives a file the local address \<open>S3File\<close>, but
  \<open>connect\<close> converts only an address that is an \<open>S3Document\<close>: on \<open>w_local_address\<close>
  (address \<open>S3File\<close>, folder with relay \<open>R\<close>) \<open>connect\<close> resolves true and the address is
  still \<open>S3File\<close>.
\<close>

theorem connect_keeps_local_file_address:
  "relayId (folder w_local_address) = Some ''R'' \<and>
   sf_s3rn (folder w_local_address) = S3RemoteFolder ''R'' ''F'' \<and>
   s3rn (sfile w_local_address) = S3File ''F'' ''g'' \<and>
   fst (SyncFile_connect w_local_address) = True \<and>
   s3rn (sfile (snd (SyncFile_connect w_local_address))) = S3File ''F'' ''g''"
  by (simp add: SyncFile_connect_def w_local_address_def ex_folder_def ex_file_def Let_def)

text \<open>
  The other half of the claim holds: no operation of a tracked file changes an address
  that is remote.
\<close>

lemma push_write_s3rn: "s3rn (sfile (push_write en fi h c w)) = s3rn (sfile w)"
  by (simp add: push_write_def emit_simps Let_def split: sum.splits)

lemma updateStats_s3rn: "s3rn (sfile (snd (updateStats dg w))) = s3rn (sfile w)"
  by (simp add: updateStats_def readBinary_def emit_simps split: sum.splits option.splits vnode.splits)

lemma push_s3rn: "s3rn (sfile (snd (push en dg w))) = s3rn (sfile w)"
proof -
  have r: "s3rn (sfile (snd (getRemote w))) = s3rn (sfile w)" by (simp add: getRemote_frame)
  show ?thesis
    using updateStats_s3rn [of dg "snd (getRemote w)"] r
    by (auto simp add: push_def case_prod_beta Let_def readBinary_def emit_simps push_write_s3rn
        transact_def split: sum.splits option.splits vnode.splits prod.splits)
qed

lemma pull_s3rn: "s3rn (sfile (snd (pull en dg w))) = s3rn (sfile w)"
  by (auto simp add: pull_def getRemote_def emit_simps writeBinary_def serverHash_emit
      split: option.splits vnode.splits prod.splits)

lemma getHash_s3rn: "s3rn (sfile (snd (getHash dg c w))) = s3rn (sfile w)"
  using updateStats_s3rn [of dg w]
  by (auto simp add: getHash_def split: sum.splits prod.splits)

lemma sync_s3rn: "s3rn (sfile (snd (sync en dg w))) = s3rn (sfile w)"
proof -
  have g: "s3rn (sfile (snd (getHash dg True w))) = s3rn (sfile w)" by (rule getHash_s3rn)
  show ?thesis
    using g pull_s3rn [of en dg w] pull_s3rn [of en dg "snd (getHash dg True w)"]
      push_s3rn [of en dg "snd (getHash dg True w)"]
    by (auto simp add: sync_def split: sum.splits prod.splits)
qed

theorem address_never_downgraded:
  assumes "is_remote (s3rn (sfile w))"
  shows "s3rn (sfile (snd (SyncFile_connect w))) = s3rn (sfile w) \<and>
         s3rn (sfile (disconnect w)) = s3rn (sfile w) \<and>
         s3rn (sfile (snd (getHash dg c w))) = s3rn (sfile w) \<and>
         s3rn (sfile (snd (push en dg w))) = s3rn (sfile w) \<and>
         s3rn (sfile (snd (pull en dg w))) = s3rn (sfile w) \<and>
         s3rn (sfile (snd (sync en dg w))) = s3rn (sfile w)"
  using assms
  by (cases "s3rn (sfile w)")
     (simp_all add: SyncFile_connect_s3rn disconnect_def getHash_s3rn push_s3rn pull_s3rn sync_s3rn)

subsection \<open>Round trip\<close>

text \<open>
  What one consumer pushes, another consumer of the same folder pulls: when the store did
  not know the content, accepts the write under an unused id, and the second consumer
  shares the folder and the guid, its \<open>pull\<close> succeeds and leaves the pushed bytes at
  its resolved path.
\<close>

lemma find_snoc_miss: "find P c = None \<Longrightarrow> find P (c @ [r]) = (if P r then Some r else None)"
  by (induction c) (auto split: if_splits)

lemma getByHash_snoc:
  "getByHash c h = None \<Longrightarrow>
   getByHash (c @ [(fi, b)]) h = (if synchash (meta fi) = h then Some fi else None)"
  by (simp add: getByHash_def find_snoc_miss)

lemma readFile_snoc:
  "readFile c i = None \<Longrightarrow>
   readFile (c @ [(fi, b)]) j = (if readFile c j \<noteq> None then readFile c j
                                  else if fi_id fi = j then Some b else None)"
  by (induction c) (auto simp add: readFile_def split: if_splits)

lemma remote_hash_unknown:
  assumes "getByHash (cas (folder w)) h = None"
  shows "map_option (\<lambda>fi. synchash (meta fi)) (fst (getRemote w)) \<noteq> Some h"
proof
  assume "map_option (\<lambda>fi. synchash (meta fi)) (fst (getRemote w)) = Some h"
  then obtain fi where F: "fst (getRemote w) = Some fi" "synchash (meta fi) = h"
    by auto
  then have G: "getByHash (cas (folder w)) (the (serverHash w)) = Some fi"
    by (auto simp add: getRemote_value split: if_splits)
  from getByHash_hash [OF G] F have "the (serverHash w) = h" by simp
  with G assms show False by simp
qed

theorem push_pull_roundtrip:
  assumes V: "vault wA (getPath (folder wA) (path (sfile wA))) = Some (VFile st b)"
      and D: "dg b \<noteq> []"
      and N: "getByHash (cas (folder wA)) (generateHash dg b) = None"
      and W: "cas_write en = Some i"
      and F: "readFile (cas (folder wA)) i = None"
      and S: "folder wB = folder (snd (push en dg wA))"
      and G: "guid (sfile wB) = guid (sfile wA)"
      and P: "vault wB (getPath (folder wB) (path (sfile wB))) \<noteq> Some VFolder"
  shows "fst (pull en' dg wB) = Inr () \<and>
         vault (snd (pull en' dg wB)) (getPath (folder wB) (path (sfile wB))) =
           Some (VFile (fs_stat en') b) \<and>
         priv_filehash (sfile (snd (pull en' dg wB))) = Some (generateHash dg b)"
proof -
  let ?h = "generateHash dg b"
  let ?m = "\<lparr>m_guid = (case fst (getRemote wA) of Some fi \<Rightarrow> m_guid (meta fi) | None \<Rightarrow> uuid en),
             m_name = name (sfile wA), synchash = ?h, m_ctime = ctime st, m_mtime = mtime st,
             m_parent = None, is_directory = False, m_synctime = now_meta en\<rparr>"
  have N0: "?h \<noteq> []" by (rule generateHash_nonempty [where dg = dg and b = b, OF D])
  have C: "cas (folder wB) = cas (folder wA) @ [(\<lparr>fi_id = i, meta = ?m\<rparr>, b)]"
    using remote_hash_unknown [OF N] by (simp add: S push_cas [OF V] writeFile_def W)
  have H: "serverHash wB = Some ?h"
    using push_serverHash [OF V, of en dg] by (simp add: serverHash_def S G push_sfile [OF V])
  have R: "getByHash (cas (folder wB)) ?h = Some \<lparr>fi_id = i, meta = ?m\<rparr>"
    by (simp add: C getByHash_snoc [OF N])
  have B: "readFile (cas (folder wB)) i = Some b"
    by (simp add: C readFile_snoc [OF F] F)
  show ?thesis
    using H N0 R B P
    by (auto simp add: pull_def truthy_str_def getRemote_def serverHash_emit emit_simps
        writeBinary_def split: option.splits vnode.splits)
qed

theorem push_pull_roundtrip_witness:
  "fst (pull ex_env ex_digest w_other) = Inr () \<and>
   vault (snd (pull ex_env ex_digest w_other)) ''shared/notes/a.md'' =
     Some (VFile \<lparr>ctime = 12, mtime = 12\<rparr> [104, 105])"
proof -
  have D: "ex_digest [104, 105] \<noteq> []" by (simp add: ex_digest_def)
  have N: "getByHash (cas (folder w_local)) (generateHash ex_digest [104, 105]) = None"
    by (simp add: w_local_def ex_folder_def getByHash_def)
  have W: "cas_write ex_env = Some ''id2''" by (simp add: ex_env_def)
  have F: "readFile (cas (folder w_local)) ''id2'' = None"
    by (simp add: w_local_def ex_folder_def readFile_def)
  have S: "folder w_other = folder (snd (push ex_env ex_digest w_local))"
    by (simp add: w_other_def)
  have G: "guid (sfile w_other) = guid (sfile w_local)"
    by (simp add: w_other_def w_local_def)
  have gp: "getPath (folder w_other) = getPath (folder w_local)"
    by (simp add: w_other_def push_getPath [OF w_local_present])
  have p: "getPath (folder w_other) (path (sfile w_other)) = ''shared/notes/a.md''"
    by (simp add: gp) (simp add: w_other_def w_local_def ex_folder_def ex_file_def)
  have P: "vault w_other (getPath (folder w_other) (path (sfile w_other))) \<noteq> Some VFolder"
    by (simp add: w_other_def)
  have e: "fs_stat ex_env = \<lparr>ctime = 12, mtime = 12\<rparr>" by (simp add: ex_env_def)
  show ?thesis
    using push_pull_roundtrip [where wA = w_local and wB = w_other and dg = ex_digest
        and b = "[104, 105]" and en = ex_env and en' = ex_env and i = "''id2''",
        OF w_local_present D N W F S G P]
    by (simp add: p e)
qed

section \<open>Properties of the connection handle\<close>

subsection \<open>The state getter\<close>

text \<open>
  Claim C8. The status is to be \<open>connecting\<close> for a socket in the CONNECTING state,
  \<open>connected\<close> for OPEN and \<open>disconnected\<close> for CLOSING or CLOSED. The table
  \<open>readyStateMap\<close> says so, but the getter looks up
  \<open>ws?.readyState || readyState.CLOSED\<close>: CONNECTING is 0, which is falsy, so the key
  becomes CLOSED. On a handle whose socket is connecting the status is \<open>disconnected\<close>
  where the claim and the table give \<open>connecting\<close>.
\<close>

theorem state_connecting_reports_disconnected:
  "ws (provider (ex_hp_ws (Some CONNECTING))) = Some CONNECTING \<and>
   readyStateMap CONNECTING = Some StatusConnecting \<and>
   status (state (ex_hp_ws (Some CONNECTING))) = Some StatusDisconnected"
  by (simp add: state_def ex_hp_ws_def ex_hp_def js_or_def readyStateMap_def CONNECTING_def
      CLOSED_def)

text \<open>
  The getter on every handle: the status depends on the socket only; without a socket
  and with a socket whose readiness is 0 it is that of CLOSED, otherwise the table's. So
  the rest of the claim holds: \<open>connected\<close> for OPEN, \<open>disconnected\<close> for CLOSING and
  CLOSED.
\<close>

lemma state_status_of_socket:
  "status (state hp) =
     (case ws (provider hp) of
        None \<Rightarrow> readyStateMap CLOSED
      | Some r \<Rightarrow> if r = 0 then readyStateMap CLOSED else readyStateMap r)"
  by (simp add: state_def js_or_def split: option.splits)

lemma state_status_recognised:
  "status (state (hp\<lparr>provider := (provider hp)\<lparr>ws := Some OPEN\<rparr>\<rparr>)) = Some StatusConnected"
  "status (state (hp\<lparr>provider := (provider hp)\<lparr>ws := Some CLOSING\<rparr>\<rparr>)) = Some StatusDisconnected"
  "status (state (hp\<lparr>provider := (provider hp)\<lparr>ws := Some CLOSED\<rparr>\<rparr>)) = Some StatusDisconnected"
  "status (state (hp\<lparr>provider := (provider hp)\<lparr>ws := None\<rparr>\<rparr>)) = Some StatusDisconnected"
  "status (state (hp\<lparr>provider := (provider hp)\<lparr>ws := Some CONNECTING\<rparr>\<rparr>)) = Some StatusDisconnected"
  by (simp_all add: state_status_of_socket readyStateMap_def OPEN_def CLOSING_def CLOSED_def
      CONNECTING_def)

subsection \<open>connect\<close>

text \<open>
  Claim C7. The promise of \<open>connect()\<close> is never rejected: it resolves true at once when
  the handle is connected, true when the token arrives and the transport's \<open>connect()\<close>
  returns, and false when the token store rejects or the transport throws.
\<close>

theorem connect_never_rejects:
  "(\<exists>r hp'. HasProvider_connect mkurl tokr conn hp = (Inr r, hp')) \<and>
   (HasProvider_connected hp \<longrightarrow> HasProvider_connect mkurl tokr conn hp = (Inr True, hp)) \<and>
   (\<not> HasProvider_connected hp \<and> tokr = Inr tok \<and> conn = None \<longrightarrow>
      fst (HasProvider_connect mkurl tokr conn hp) = Inr True \<and>
      intent (state (snd (HasProvider_connect mkurl tokr conn hp))) = IntentConnected) \<and>
   (\<not> HasProvider_connected hp \<and> tokr = Inl e \<longrightarrow>
      HasProvider_connect mkurl tokr conn hp = (Inr False, hp)) \<and>
   (\<not> HasProvider_connected hp \<and> tokr = Inr tok \<and> conn = Some e \<longrightarrow>
      HasProvider_connect mkurl tokr conn hp = (Inr False, refreshProvider mkurl tok hp))"
  by (cases tokr; cases conn)
     (auto simp add: HasProvider_connect_def promise_catch_def promise_then_def
        getProviderToken_def connect_then_def Let_def state_def notifyListeners_def
        provider_connect_def)

theorem connect_never_rejects_witness:
  "HasProvider_connect ex_mkurl (Inr ex_token) None (ex_hp_ws (Some OPEN)) =
     (Inr True, ex_hp_ws (Some OPEN)) \<and>
   fst (HasProvider_connect ex_mkurl (Inr ex_token) None (ex_hp_ws None)) = Inr True \<and>
   HasProvider_connect ex_mkurl (Inl TokenAcquisitionTimeout) None (ex_hp_ws None) =
     (Inr False, ex_hp_ws None) \<and>
   fst (HasProvider_connect ex_mkurl (Inr ex_token) (Some TransportConnectFailure) (ex_hp_ws None)) =
     Inr False"
proof -
  have c: "HasProvider_connected (ex_hp_ws (Some OPEN))" "\<not> HasProvider_connected (ex_hp_ws None)"
    by (simp_all add: HasProvider_connected_def state_def ex_hp_ws_def ex_hp_def js_or_def
        readyStateMap_def OPEN_def CLOSED_def)
  show ?thesis
    using c
      connect_never_rejects [where hp = "ex_hp_ws (Some OPEN)" and mkurl = ex_mkurl
        and tokr = "Inr ex_token" and conn = None]
      connect_never_rejects [where hp = "ex_hp_ws None" and mkurl = ex_mkurl
        and tokr = "Inr ex_token" and tok = ex_token and conn = None]
      connect_never_rejects [where hp = "ex_hp_ws None" and mkurl = ex_mkurl
        and tokr = "Inl TokenAcquisitionTimeout" and e = TokenAcquisitionTimeout and conn = None]
      connect_never_rejects [where hp = "ex_hp_ws None" and mkurl = ex_mkurl
        and tokr = "Inr ex_token" and tok = ex_token and e = TransportConnectFailure
        and conn = "Some TransportConnectFailure"]
    by simp
qed

subsection \<open>Reconnecting on a connection error\<close>

lemma disconnect_provider:
  "provider (HasProvider_disconnect hp) = (provider hp)\<lparr>shouldConnect := False, ws := None\<rparr>"
  "hp_s3rn (HasProvider_disconnect hp) = hp_s3rn hp"
  "listeners (HasProvider_disconnect hp) = listeners hp"
  by (simp_all add: HasProvider_disconnect_def notifyListeners_def)

lemma disconnect_state:
  "state (HasProvider_disconnect hp) =
     \<lparr>status = Some StatusDisconnected, intent = IntentDisconnected\<rparr>"
  by (simp add: state_def disconnect_provider js_or_def readyStateMap_def CLOSED_def)

lemma disconnect_delivered:
  "delivered (HasProvider_disconnect hp) =
     delivered hp @ map (\<lambda>kl. (snd kl, \<lparr>status = Some StatusDisconnected,
                                         intent = IntentDisconnected\<rparr>)) (listeners hp)"
  by (simp add: HasProvider_disconnect_def notifyListeners_def state_def js_or_def
      readyStateMap_def CLOSED_def)

lemma disconnect_not_connected: "\<not> HasProvider_connected (HasProvider_disconnect hp)"
  by (simp add: HasProvider_connected_def disconnect_state)

lemma reconnect_provider:
  assumes "mkurl (ct_url tok) (s3rnToYsweetDocId (hp_s3rn hp)) (token tok) = url (provider hp)"
  shows "provider (snd (HasProvider_connect mkurl (Inr tok) None (HasProvider_disconnect hp))) =
           (provider hp)\<lparr>shouldConnect := True, ws := Some CONNECTING\<rparr>"
    and "hp_s3rn (snd (HasProvider_connect mkurl (Inr tok) None (HasProvider_disconnect hp))) =
           hp_s3rn hp"
  using assms
  by (simp_all add: HasProvider_connect_def disconnect_not_connected promise_catch_def
      promise_then_def getProviderToken_def connect_then_def Let_def refreshProvider_def
      disconnect_provider notifyListeners_def provider_connect_def)

lemma transport_failure_step:
  assumes "url (provider hp) \<noteq> []" "shouldConnect (provider hp)"
    and "mkurl (ct_url tok) (s3rnToYsweetDocId (hp_s3rn hp)) (token tok) = url (provider hp)"
  shows "fst (transport_failure mkurl (Inr tok) None hp) =
           (wsUnsuccessfulReconnects (provider hp) < 3)"
    and "url (provider (snd (transport_failure mkurl (Inr tok) None hp))) = url (provider hp)"
    and "shouldConnect (provider (snd (transport_failure mkurl (Inr tok) None hp))) =
           (wsUnsuccessfulReconnects (provider hp) < 3)"
    and "wsUnsuccessfulReconnects (provider (snd (transport_failure mkurl (Inr tok) None hp))) =
           Suc (wsUnsuccessfulReconnects (provider hp))"
    and "hp_s3rn (snd (transport_failure mkurl (Inr tok) None hp)) = hp_s3rn hp"
  using assms
  by (simp_all add: transport_failure_def on_connection_error_def Let_def PROVIDER_MAX_ERRORS_def
      reconnect_provider disconnect_provider)

lemma error_burst_4:
  "fst (error_burst 4 mkurl tokr conn hp) =
     (let r1 = transport_failure mkurl tokr conn hp;
          r2 = transport_failure mkurl tokr conn (snd r1);
          r3 = transport_failure mkurl tokr conn (snd r2);
          r4 = transport_failure mkurl tokr conn (snd r3)
      in [fst r1, fst r2, fst r3, fst r4])"
  "snd (error_burst 4 mkurl tokr conn hp) =
     snd (transport_failure mkurl tokr conn
       (snd (transport_failure mkurl tokr conn
         (snd (transport_failure mkurl tokr conn
           (snd (transport_failure mkurl tokr conn hp)))))))"
  by (simp_all add: eval_nat_numeral Let_def)

lemma four_failures:
  assumes U: "url (provider hp) \<noteq> []" and S: "shouldConnect (provider hp)"
    and Z: "wsUnsuccessfulReconnects (provider hp) = 0"
    and M: "mkurl (ct_url tok) (s3rnToYsweetDocId (hp_s3rn hp)) (token tok) = url (provider hp)"
  shows "fst (error_burst 4 mkurl (Inr tok) None hp) = [True, True, True, False]"
    and "intent (state (snd (error_burst 4 mkurl (Inr tok) None hp))) = IntentDisconnected"
proof -
  let ?f = "transport_failure mkurl (Inr tok) None"
  let ?h1 = "snd (?f hp)"
  let ?h2 = "snd (?f ?h1)"
  let ?h3 = "snd (?f ?h2)"
  let ?h4 = "snd (?f ?h3)"
  note s0 = transport_failure_step [where mkurl = mkurl and tok = tok, OF U S M]
  have U1: "url (provider ?h1) \<noteq> []" and S1: "shouldConnect (provider ?h1)"
    and M1: "mkurl (ct_url tok) (s3rnToYsweetDocId (hp_s3rn ?h1)) (token tok) = url (provider ?h1)"
    and Z1: "wsUnsuccessfulReconnects (provider ?h1) = 1"
    using s0 U M Z by simp_all
  note s1 = transport_failure_step [where mkurl = mkurl and tok = tok, OF U1 S1 M1]
  have U2: "url (provider ?h2) \<noteq> []" and S2: "shouldConnect (provider ?h2)"
    and M2: "mkurl (ct_url tok) (s3rnToYsweetDocId (hp_s3rn ?h2)) (token tok) = url (provider ?h2)"
    and Z2: "wsUnsuccessfulReconnects (provider ?h2) = 2"
    using s1 U1 M1 Z1 by simp_all
  note s2 = transport_failure_step [where mkurl = mkurl and tok = tok, OF U2 S2 M2]
  have U3: "url (provider ?h3) \<noteq> []" and S3: "shouldConnect (provider ?h3)"
    and M3: "mkurl (ct_url tok) (s3rnToYsweetDocId (hp_s3rn ?h3)) (token tok) = url (provider ?h3)"
    and Z3: "wsUnsuccessfulReconnects (provider ?h3) = 3"
    using s2 U2 M2 Z2 by simp_all
  note s3 = transport_failure_step [where mkurl = mkurl and tok = tok, OF U3 S3 M3]
  show "fst (error_burst 4 mkurl (Inr tok) None hp) = [True, True, True, False]"
    using s0(1) s1(1) s2(1) s3(1) Z Z1 Z2 Z3 by (simp add: error_burst_4 Let_def)
  show "intent (state (snd (error_burst 4 mkurl (Inr tok) None hp))) = IntentDisconnected"
    using s3(3) Z3 by (simp add: error_burst_4 state_def)
qed

text \<open>
  Claim C6. On a connection-error event the handle calls \<open>connect()\<close> again exactly when
  the URL is present, the intent was connected and the error count is below 3, and it
  disconnects first in either case: no socket, intent disconnected, every subscriber
  notified of that state. Hence four failures in a row, starting with intent connected,
  a present URL and no errors counted, each retry getting a token for the same URL: the
  first three events call \<open>connect()\<close>, the fourth does not and leaves the intent
  disconnected.
\<close>

theorem connection_error_reconnect:
  "fst (on_connection_error mkurl tokr conn hp) =
      (url (provider hp) \<noteq> [] \<and> shouldConnect (provider hp) \<and>
       wsUnsuccessfulReconnects (provider hp) < 3) \<and>
   snd (on_connection_error mkurl tokr conn hp) =
      (if fst (on_connection_error mkurl tokr conn hp)
       then snd (HasProvider_connect mkurl tokr conn (HasProvider_disconnect hp))
       else HasProvider_disconnect hp) \<and>
   ws (provider (HasProvider_disconnect hp)) = None \<and>
   state (HasProvider_disconnect hp) =
      \<lparr>status = Some StatusDisconnected, intent = IntentDisconnected\<rparr> \<and>
   delivered (HasProvider_disconnect hp) =
      delivered hp @ map (\<lambda>kl. (snd kl, \<lparr>status = Some StatusDisconnected,
                                          intent = IntentDisconnected\<rparr>)) (listeners hp) \<and>
   (url (provider hp) \<noteq> [] \<and> shouldConnect (provider hp) \<and>
    wsUnsuccessfulReconnects (provider hp) = 0 \<and>
    mkurl (ct_url tok) (s3rnToYsweetDocId (hp_s3rn hp)) (token tok) = url (provider hp) \<longrightarrow>
      fst (error_burst 4 mkurl (Inr tok) None hp) = [True, True, True, False] \<and>
      intent (state (snd (error_burst 4 mkurl (Inr tok) None hp))) = IntentDisconnected)"
proof -
  have a: "fst (on_connection_error mkurl tokr conn hp) =
      (url (provider hp) \<noteq> [] \<and> shouldConnect (provider hp) \<and>
       wsUnsuccessfulReconnects (provider hp) < 3)"
    by (simp add: on_connection_error_def Let_def PROVIDER_MAX_ERRORS_def)
  have b: "snd (on_connection_error mkurl tokr conn hp) =
      (if fst (on_connection_error mkurl tokr conn hp)
       then snd (HasProvider_connect mkurl tokr conn (HasProvider_disconnect hp))
       else HasProvider_disconnect hp)"
    by (simp add: on_connection_error_def Let_def)
  have c: "ws (provider (HasProvider_disconnect hp)) = None"
    by (simp add: disconnect_provider)
  show ?thesis
    using a b c disconnect_state [of hp] disconnect_delivered [of hp]
      four_failures [where hp = hp and mkurl = mkurl and tok = tok]
    by blast
qed

theorem connection_error_reconnect_witness:
  "fst (on_connection_error ex_mkurl (Inr ex_token) None ex_hp) = True \<and>
   fst (error_burst 4 ex_mkurl (Inr ex_token) None ex_hp) = [True, True, True, False] \<and>
   intent (state (snd (error_burst 4 ex_mkurl (Inr ex_token) None ex_hp))) = IntentDisconnected \<and>
   delivered (HasProvider_disconnect ex_hp) =
     [(7, \<lparr>status = Some StatusDisconnected, intent = IntentDisconnected\<rparr>)]"
proof -
  have h: "url (provider ex_hp) \<noteq> [] \<and> shouldConnect (provider ex_hp) \<and>
           wsUnsuccessfulReconnects (provider ex_hp) = 0 \<and>
           ex_mkurl (ct_url ex_token) (s3rnToYsweetDocId (hp_s3rn ex_hp)) (token ex_token) =
             url (provider ex_hp)"
    by (simp add: ex_hp_def ex_token_def ex_mkurl_def)
  have l: "delivered ex_hp = []" "listeners ex_hp = [(1, 7)]"
    by (simp_all add: ex_hp_def)
  show ?thesis
    using h connection_error_reconnect [where hp = ex_hp and mkurl = ex_mkurl
        and tokr = "Inr ex_token" and tok = ex_token and conn = None]
    by (simp add: l)
qed

subsection \<open>Token refresh\<close>

text \<open>
  \<open>refreshProvider\<close> with a token whose URL differs from the live one sets the new URL,
  resets the error count and closes the socket; with the same URL it touches nothing of
  the transport. Either way the token is stored.
\<close>

theorem refreshProvider_hot_swap:
  "clientToken (refreshProvider mkurl tok hp) = tok \<and>
   (url (provider hp) \<noteq> mkurl (ct_url tok) (s3rnToYsweetDocId (hp_s3rn hp)) (token tok) \<longrightarrow>
      provider (refreshProvider mkurl tok hp) =
        (provider hp)\<lparr>url := mkurl (ct_url tok) (s3rnToYsweetDocId (hp_s3rn hp)) (token tok),
                       wsUnsuccessfulReconnects := 0,
                       ws := map_option ws_close (ws (provider hp))\<rparr>) \<and>
   (url (provider hp) = mkurl (ct_url tok) (s3rnToYsweetDocId (hp_s3rn hp)) (token tok) \<longrightarrow>
      provider (refreshProvider mkurl tok hp) = provider hp)"
  by (simp add: refreshProvider_def Let_def)

end
